theory Spec2Isabelle
  imports Main
begin

section \<open>Python values read by the printer\<close>

text \<open>
  A shallow embedding of \<^verbatim>\<open>symbolic_pymc/tensorflow/printing.py\<close>. The graph objects
  (TensorFlow tensors and operations, their meta counterparts, logic variables) are
  external to the file; they are modelled by what the printer reads from them.

  Exceptions are values. The printer mutates its own state and may raise, so every
  action maps a printer to an optional exception and the printer as it is afterwards.
\<close>

datatype error =
    ValueError string
  | AttributeError string
  | TypeError string
  | KeyError string
  | OtherError string

text \<open>A logic variable of \<^verbatim>\<open>unification\<close>: \<^verbatim>\<open>isvar\<close> holds of it. It carries what
  \<^verbatim>\<open>str\<close> renders it as.\<close>

datatype var = Var (var_str: string)

text \<open>The values the header's f-string formats: \<^verbatim>\<open>None\<close>, an integer, a string
  or a logic variable.\<close>

datatype atom = NoneA | IntA int | StrA string | VarA var

text \<open>\<^verbatim>\<open>getattr(obj.dtype, "name", obj.dtype)\<close>: a dtype with a \<^verbatim>\<open>name\<close> attribute,
  or a raw value without one.\<close>

datatype dtype = DType atom | RawDType atom

text \<open>
  What a tensor object yields besides its operation. \<^verbatim>\<open>tf_Tensor\<close> is
  \<^verbatim>\<open>isinstance(obj, tf.Tensor)\<close> (otherwise the object is a \<^verbatim>\<open>TFlowMetaTensor\<close>);
  \<^verbatim>\<open>ident\<close> is the object's identity; \<^verbatim>\<open>hash_raises\<close> is the exception that
  \<^verbatim>\<open>hash(obj)\<close> raises, if it raises one (a \<^verbatim>\<open>tf.Tensor\<close> for which tensor equality is
  enabled is unhashable: its \<^verbatim>\<open>__hash__\<close> raises \<^verbatim>\<open>TypeError\<close>); \<^verbatim>\<open>shape\<close> is the
  outcome of \<^verbatim>\<open>obj.shape.as_list()\<close>, a list of dimensions or the exception raised on
  the way; \<^verbatim>\<open>eval\<close> is the outcome of \<^verbatim>\<open>obj.eval(session=...)\<close>.
\<close>

record 'v tensor_attrs =
  tf_Tensor :: bool
  ident :: nat
  hash_raises :: "error option"
  value_index :: atom
  dtype :: dtype
  shape :: "error + int option list"
  name :: atom
  eval :: "error + 'v"

text \<open>\<^verbatim>\<open>op.node_def\<close>: a logic variable, or a node definition whose \<^verbatim>\<open>attr\<close> is a
  dictionary from attribute names to payloads.\<close>

datatype 'v node_def = NodeDefVar var | NodeDef "(string \<times> 'v) list"

text \<open>
  The objects \<^verbatim>\<open>_tf_dprint\<close> dispatches on. A tensor's \<^verbatim>\<open>op\<close> accessor raises, or
  yields a logic variable or an operation; an operation has a \<^verbatim>\<open>type\<close>, its
  \<^verbatim>\<open>inputs\<close> (a logic variable or a sequence of objects) and a \<^verbatim>\<open>node_def\<close>.
  Graphs are finite and acyclic; a tensor consumed by several operations occurs once
  under each of them, with the same \<^verbatim>\<open>ident\<close>.
\<close>

datatype 'v pyobj =
    PyStr string
  | PyVar var
  | PyList "'v pyobj list"
  | PyTensor "'v tensor_attrs" "'v op_attr"
  | PyOp "'v op"
and 'v op_attr = OpRaises error | OpVar var | OpObj "'v op"
and 'v op = Op string "'v inputs_attr" "'v node_def"
and 'v inputs_attr = InputsVar var | InputsList "'v pyobj list"

section \<open>Formatting\<close>

abbreviation tab :: string where "tab \<equiv> [CHR 0x09]"
abbreviation newline :: string where "newline \<equiv> [CHR 0x0A]"
abbreviation dquote :: string where "dquote \<equiv> [CHR 0x22]"
abbreviation squote :: string where "squote \<equiv> [CHR 0x27]"

definition digit :: "nat \<Rightarrow> char" where
  "digit d = ''0123456789'' ! d"

fun str_nat :: "nat \<Rightarrow> string" where
  "str_nat n = (if n < 10 then [digit n] else str_nat (n div 10) @ [digit (n mod 10)])"

declare str_nat.simps [simp del]

definition str_int :: "int \<Rightarrow> string" where
  "str_int i = (if i < 0 then ''-'' @ str_nat (nat (- i)) else str_nat (nat i))"

text \<open>\<^verbatim>\<open>format(x, "")\<close> of an f-string field.\<close>

fun format_atom :: "atom \<Rightarrow> string" where
  "format_atom NoneA = ''None''"
| "format_atom (IntA i) = str_int i"
| "format_atom (StrA s) = s"
| "format_atom (VarA v) = var_str v"

fun join :: "string \<Rightarrow> string list \<Rightarrow> string" where
  "join sep [] = []"
| "join sep [x] = x"
| "join sep (x # y # ys) = x @ sep @ join sep (y # ys)"

text \<open>\<^verbatim>\<open>str\<close> of the list \<^verbatim>\<open>as_list()\<close> returns: integers and \<^verbatim>\<open>None\<close>.\<close>

fun repr_dim :: "int option \<Rightarrow> string" where
  "repr_dim None = ''None''"
| "repr_dim (Some d) = str_int d"

definition str_dims :: "int option list \<Rightarrow> string" where
  "str_dims ds = ''['' @ join '', '' (map repr_dim ds) @ '']''"

text \<open>The \<^verbatim>\<open>try\<close> block of the tensor case: \<^verbatim>\<open>ValueError\<close> and
  \<^verbatim>\<open>AttributeError\<close> are caught, any other exception leaves the function.\<close>

fun shape_str :: "error + int option list \<Rightarrow> error + string" where
  "shape_str (Inr ds) = Inr (str_dims ds)"
| "shape_str (Inl (ValueError m)) = Inr ''Unknown''"
| "shape_str (Inl (AttributeError m)) = Inr ''Unknown''"
| "shape_str (Inl e) = Inl e"

text \<open>\<^verbatim>\<open>getattr(obj.op, "type", obj.op)\<close>, formatted: an operation has a
  \<^verbatim>\<open>type\<close>, a logic variable has none.\<close>

fun op_label :: "'v op_attr \<Rightarrow> string" where
  "op_label (OpObj (Op ty ins nd)) = ty"
| "op_label (OpVar v) = var_str v"
| "op_label (OpRaises e) = []"

fun dtype_label :: "dtype \<Rightarrow> string" where
  "dtype_label (DType n) = format_atom n"
| "dtype_label (RawDType d) = format_atom d"

definition prefix :: "'v tensor_attrs \<Rightarrow> 'v op_attr \<Rightarrow> string \<Rightarrow> string" where
  "prefix at opa shp =
     ''Tensor('' @ op_label opa @ ''):'' @ format_atom (value_index at)
       @ '','' @ tab @ ''dtype='' @ dtype_label (dtype at)
       @ '','' @ tab @ ''shape='' @ shp
       @ '','' @ tab @ dquote @ format_atom (name at) @ dquote"

section \<open>TFlowPrinter\<close>

text \<open>
  \<^verbatim>\<open>buffer\<close> holds what has been written to the sink, one entry for each
  \<^verbatim>\<open>write\<close> (\<^verbatim>\<open>flush\<close> changes nothing that is written).

  \<^verbatim>\<open>printed_subgraphs\<close> is the Python set, held as the sequence of its \<^verbatim>\<open>add\<close>
  calls in the order they were made: \<^verbatim>\<open>x in s\<close> is membership in the sequence, and
  \<^verbatim>\<open>s.add(x)\<close> appends.
\<close>

text \<open>
  Modelled from the spec: the \<^verbatim>\<open>__hash__\<close> and \<^verbatim>\<open>__eq__\<close> of the tensor classes,
  which decide membership in \<^verbatim>\<open>printed_subgraphs\<close>, are declared outside
  \<^verbatim>\<open>printing.py\<close>. The spec keys the set by node identity: its members are tensor
  objects, entered by \<^verbatim>\<open>ident\<close>.
\<close>

record 'v TFlowPrinter =
  buffer :: "string list"
  formatter :: "'v pyobj \<Rightarrow> string"
  indentation :: string
  printed_subgraphs :: "nat list"

definition init_TFlowPrinter :: "('v pyobj \<Rightarrow> string) \<Rightarrow> string list \<Rightarrow> 'v TFlowPrinter" where
  "init_TFlowPrinter formatter' buffer' =
     \<lparr>buffer = buffer', formatter = formatter', indentation = [], printed_subgraphs = []\<rparr>"

type_synonym 'v action = "'v TFlowPrinter \<Rightarrow> error option \<times> 'v TFlowPrinter"

datatype indent = IndentInt int | IndentStr string

text \<open>\<^verbatim>\<open>" " * indent\<close> for an integer (nothing when it is negative), the string itself
  otherwise.\<close>

fun increment :: "indent \<Rightarrow> string" where
  "increment (IndentInt n) = replicate (nat n) CHR '' ''"
| "increment (IndentStr s) = s"

text \<open>The context manager: the body of the \<^verbatim>\<open>with\<close> block runs on the printer with
  the longer indentation, and the \<^verbatim>\<open>finally\<close> clause puts the saved one back
  however the body ends.\<close>

definition indented :: "indent \<Rightarrow> 'v action \<Rightarrow> 'v action" where
  "indented indent body p =
     (let pre_indentation = indentation p;
          (r, p') = body (p\<lparr>indentation := indentation p @ increment indent\<rparr>)
      in (r, p'\<lparr>indentation := pre_indentation\<rparr>))"

definition format :: "'v pyobj \<Rightarrow> 'v TFlowPrinter \<Rightarrow> string" where
  "format obj p = indentation p @ formatter p obj"

definition print :: "'v pyobj \<Rightarrow> 'v TFlowPrinter \<Rightarrow> 'v TFlowPrinter" where
  "print obj p = p\<lparr>buffer := buffer p @ [format obj p]\<rparr>"

definition println :: "'v pyobj \<Rightarrow> 'v TFlowPrinter \<Rightarrow> 'v TFlowPrinter" where
  "println obj p = p\<lparr>buffer := buffer p @ [format obj p @ newline]\<rparr>"

lemma indented_cong [fundef_cong]:
  "indent = indent' \<Longrightarrow> p = p' \<Longrightarrow> (\<And>q. body q = body' q)
   \<Longrightarrow> indented indent body p = indented indent' body' p'"
  by (simp add: indented_def)

section \<open>The dispatcher\<close>

text \<open>
  \<^verbatim>\<open>_tf_dprint\<close> is \<^verbatim>\<open>tf_dprint_dispatch\<close>: the tensor case, the operation case and
  the default case of the \<^verbatim>\<open>singledispatch\<close> function. \<^verbatim>\<open>tf_dprint_inputs\<close> is the
  \<^verbatim>\<open>for\<close> loop of the operation case. \<^verbatim>\<open>a2s v threshold prefix\<close> stands for
  \<^verbatim>\<open>np.array2string(v, threshold=threshold, prefix=prefix)\<close>. The test
  \<^verbatim>\<open>obj not in printer.printed_subgraphs\<close> hashes the tensor before anything is
  looked up: an exception of \<^verbatim>\<open>hash(obj)\<close> leaves the \<^verbatim>\<open>with\<close> block and the visit.
\<close>

fun tf_dprint_dispatch :: "('v \<Rightarrow> nat \<Rightarrow> string \<Rightarrow> string) \<Rightarrow> 'v pyobj \<Rightarrow> 'v action"
and tf_dprint_inputs :: "('v \<Rightarrow> nat \<Rightarrow> string \<Rightarrow> string) \<Rightarrow> 'v pyobj list \<Rightarrow> 'v action"
where
  "tf_dprint_dispatch a2s (PyTensor at opa) p =
     (case shape_str (shape at) of
        Inl e \<Rightarrow> (Some e, p)
      | Inr shp \<Rightarrow>
     (case opa of
        OpRaises e \<Rightarrow> (Some e, p)
      | OpVar v \<Rightarrow> tf_dprint_dispatch a2s (PyStr (prefix at opa shp)) p
      | OpObj (Op ty ins nd) \<Rightarrow>
     (case tf_dprint_dispatch a2s (PyStr (prefix at opa shp)) p of
        (Some e, p1) \<Rightarrow> (Some e, p1)
      | (None, p1) \<Rightarrow>
     (case ins of
        InputsVar v \<Rightarrow>
          indented (IndentStr ''|  '')
            (\<lambda>q. tf_dprint_dispatch a2s (PyStr (var_str v)) q) p1
      | InputsList xs \<Rightarrow>
          if length xs > 0 then
            indented (IndentStr ''|  '')
              (\<lambda>q. case hash_raises at of
                     Some e \<Rightarrow> (Some e, q)
                   | None \<Rightarrow>
                       if ident at \<notin> set (printed_subgraphs q)
                       then tf_dprint_dispatch a2s (PyOp (Op ty ins nd))
                              (q\<lparr>printed_subgraphs := printed_subgraphs q @ [ident at]\<rparr>)
                       else tf_dprint_dispatch a2s (PyStr ''...'') q) p1
          else if ty = ''Const'' then
            indented (IndentStr ''|  '')
              (\<lambda>q. if tf_Tensor at then
                     (case eval at of
                        Inl e \<Rightarrow> (Some e, q)
                      | Inr numpy_val \<Rightarrow>
                          tf_dprint_dispatch a2s (PyStr (a2s numpy_val 20 (indentation q))) q)
                   else
                     (case nd of
                        NodeDefVar v \<Rightarrow> tf_dprint_dispatch a2s (PyStr (var_str v)) q
                      | NodeDef attr \<Rightarrow>
                          (case map_of attr ''value'' of
                             None \<Rightarrow> (Some (KeyError ''value''), q)
                           | Some numpy_val \<Rightarrow>
                               tf_dprint_dispatch a2s
                                 (PyStr (a2s numpy_val 20 (indentation q))) q))) p1
          else (None, p1)))))"
| "tf_dprint_dispatch a2s (PyOp (Op ty ins nd)) p =
     (case ins of
        InputsVar v \<Rightarrow> (Some (TypeError (squote @ ''Var'' @ squote @ '' object is not iterable'')), p)
      | InputsList xs \<Rightarrow> tf_dprint_inputs a2s xs p)"
| "tf_dprint_dispatch a2s obj p = (None, println obj p)"
| "tf_dprint_inputs a2s [] p = (None, p)"
| "tf_dprint_inputs a2s (op_input # rest) p =
     (case tf_dprint_dispatch a2s op_input p of
        (Some e, p1) \<Rightarrow> (Some e, p1)
      | (None, p1) \<Rightarrow> tf_dprint_inputs a2s rest p1)"

section \<open>The entry point\<close>

definition not_available :: string where
  "not_available =
     ''TensorFlow Operation not available; try recreating the object with eager-mode disabled''
     @ '' (e.g. within `tensorflow.python.eager.context.graph_mode`)''"

text \<open>The check on the root: only a \<^verbatim>\<open>tf.Tensor\<close> is probed, and only
  \<^verbatim>\<open>AttributeError\<close> is turned into the \<^verbatim>\<open>ValueError\<close>.\<close>

fun probe_op :: "'v pyobj \<Rightarrow> error option" where
  "probe_op (PyTensor at (OpRaises (AttributeError m))) =
     (if tf_Tensor at then Some (ValueError not_available) else None)"
| "probe_op (PyTensor at (OpRaises e)) = (if tf_Tensor at then Some e else None)"
| "probe_op obj = None"

text \<open>
  \<^verbatim>\<open>py_str\<close> is Python's \<^verbatim>\<open>str\<close>, the formatter of the default printer, and
  \<^verbatim>\<open>sys_stdout\<close> what has been written to \<^verbatim>\<open>sys.stdout\<close>, the default printer's
  sink. A printer the caller supplies writes to its own \<^verbatim>\<open>buffer\<close>. The result is
  the exception raised (if any), the caller's printer and \<^verbatim>\<open>sys.stdout\<close> as they are
  afterwards.
\<close>

definition tf_dprint ::
  "('v pyobj \<Rightarrow> string) \<Rightarrow> ('v \<Rightarrow> nat \<Rightarrow> string \<Rightarrow> string) \<Rightarrow> 'v pyobj
     \<Rightarrow> 'v TFlowPrinter option \<Rightarrow> string list
     \<Rightarrow> error option \<times> 'v TFlowPrinter option \<times> string list" where
  "tf_dprint py_str a2s obj printer sys_stdout =
     (case probe_op obj of
        Some e \<Rightarrow> (Some e, printer, sys_stdout)
      | None \<Rightarrow>
          (case printer of
             None \<Rightarrow>
               (let (r, p') = tf_dprint_dispatch a2s obj (init_TFlowPrinter py_str sys_stdout)
                in (r, None, buffer p'))
           | Some p \<Rightarrow>
               (let (r, p') = tf_dprint_dispatch a2s obj p
                in (r, Some p', sys_stdout))))"

section \<open>Notions used to state the properties\<close>

text \<open>Nested \<^verbatim>\<open>with printer.indented(i)\<close> blocks, the outermost first.\<close>

fun indented_all :: "indent list \<Rightarrow> 'v action \<Rightarrow> 'v action" where
  "indented_all [] body = body"
| "indented_all (i # rest) body = indented i (indented_all rest body)"

text \<open>The tensor case after its header line: lines 88 to 112 of \<^verbatim>\<open>printing.py\<close>, run on
  the printer that holds the header.\<close>

definition after_header ::
  "('v \<Rightarrow> nat \<Rightarrow> string \<Rightarrow> string) \<Rightarrow> 'v tensor_attrs \<Rightarrow> 'v op_attr \<Rightarrow> 'v action" where
  "after_header a2s at opa p1 =
     (case opa of
        OpRaises e \<Rightarrow> (Some e, p1)
      | OpVar v \<Rightarrow> (None, p1)
      | OpObj (Op ty ins nd) \<Rightarrow>
     (case ins of
        InputsVar v \<Rightarrow>
          indented (IndentStr ''|  '')
            (\<lambda>q. tf_dprint_dispatch a2s (PyStr (var_str v)) q) p1
      | InputsList xs \<Rightarrow>
          if length xs > 0 then
            indented (IndentStr ''|  '')
              (\<lambda>q. case hash_raises at of
                     Some e \<Rightarrow> (Some e, q)
                   | None \<Rightarrow>
                       if ident at \<notin> set (printed_subgraphs q)
                       then tf_dprint_dispatch a2s (PyOp (Op ty ins nd))
                              (q\<lparr>printed_subgraphs := printed_subgraphs q @ [ident at]\<rparr>)
                       else tf_dprint_dispatch a2s (PyStr ''...'') q) p1
          else if ty = ''Const'' then
            indented (IndentStr ''|  '')
              (\<lambda>q. if tf_Tensor at then
                     (case eval at of
                        Inl e \<Rightarrow> (Some e, q)
                      | Inr numpy_val \<Rightarrow>
                          tf_dprint_dispatch a2s (PyStr (a2s numpy_val 20 (indentation q))) q)
                   else
                     (case nd of
                        NodeDefVar v \<Rightarrow> tf_dprint_dispatch a2s (PyStr (var_str v)) q
                      | NodeDef attr \<Rightarrow>
                          (case map_of attr ''value'' of
                             None \<Rightarrow> (Some (KeyError ''value''), q)
                           | Some numpy_val \<Rightarrow>
                               tf_dprint_dispatch a2s
                                 (PyStr (a2s numpy_val 20 (indentation q))) q))) p1
          else (None, p1)))"

text \<open>The identities of the tensors below an object, along \<^verbatim>\<open>op\<close> and \<^verbatim>\<open>inputs\<close>,
  whose operation has at least one input.\<close>

fun idents_with_inputs :: "'v pyobj \<Rightarrow> nat set"
and idents_with_inputs_list :: "'v pyobj list \<Rightarrow> nat set"
where
  "idents_with_inputs (PyTensor at (OpObj (Op ty (InputsList xs) nd))) =
     (if xs = [] then {} else insert (ident at) (idents_with_inputs_list xs))"
| "idents_with_inputs (PyOp (Op ty (InputsList xs) nd)) = idents_with_inputs_list xs"
| "idents_with_inputs obj = {}"
| "idents_with_inputs_list [] = {}"
| "idents_with_inputs_list (x # xs) = idents_with_inputs x \<union> idents_with_inputs_list xs"

text \<open>\<^verbatim>\<open>extends p p' A\<close>: the printer \<^verbatim>\<open>p'\<close> is \<^verbatim>\<open>p\<close> after some writes, each
  starting with the indentation of \<^verbatim>\<open>p\<close>, and after adding some identities of \<^verbatim>\<open>A\<close>,
  each once and none of them in the set before.\<close>

definition extends :: "'v TFlowPrinter \<Rightarrow> 'v TFlowPrinter \<Rightarrow> nat set \<Rightarrow> bool" where
  "extends p p' A \<longleftrightarrow>
     (\<exists>out added.
        p' = p\<lparr>buffer := buffer p @ out, printed_subgraphs := printed_subgraphs p @ added\<rparr>
        \<and> distinct added \<and> set added \<inter> set (printed_subgraphs p) = {} \<and> set added \<subseteq> A
        \<and> (\<forall>line \<in> set out. \<exists>t. line = indentation p @ t))"

text \<open>
  The graph a tree of objects stands for. A tensor consumed by several operations
  occurs once under each of them: \<^verbatim>\<open>consistent g obj\<close> holds when every tensor of
  \<^verbatim>\<open>obj\<close> whose operation has inputs has the inputs \<^verbatim>\<open>g\<close> gives for its identity, so
  that two occurrences of one identity are occurrences of one subgraph.
  \<^verbatim>\<open>acyclic_graph obj\<close> holds when no such tensor occurs below itself.
\<close>

fun consistent :: "(nat \<Rightarrow> 'v pyobj list) \<Rightarrow> 'v pyobj \<Rightarrow> bool"
and consistent_list :: "(nat \<Rightarrow> 'v pyobj list) \<Rightarrow> 'v pyobj list \<Rightarrow> bool"
where
  "consistent g (PyTensor at (OpObj (Op ty (InputsList xs) nd))) =
     ((xs = [] \<or> g (ident at) = xs) \<and> consistent_list g xs)"
| "consistent g (PyOp (Op ty (InputsList xs) nd)) = consistent_list g xs"
| "consistent g obj = True"
| "consistent_list g [] = True"
| "consistent_list g (x # xs) = (consistent g x \<and> consistent_list g xs)"

fun acyclic_graph :: "'v pyobj \<Rightarrow> bool"
and acyclic_list :: "'v pyobj list \<Rightarrow> bool"
where
  "acyclic_graph (PyTensor at (OpObj (Op ty (InputsList xs) nd))) =
     (ident at \<notin> idents_with_inputs_list xs \<and> acyclic_list xs)"
| "acyclic_graph (PyOp (Op ty (InputsList xs) nd)) = acyclic_list xs"
| "acyclic_graph obj = True"
| "acyclic_list [] = True"
| "acyclic_list (x # xs) = (acyclic_graph x \<and> acyclic_list xs)"

text \<open>\<^verbatim>\<open>closed_under g open_idents ps\<close>: of every identity in \<^verbatim>\<open>ps\<close> that is not among
  \<^verbatim>\<open>open_idents\<close> (the tensors whose inputs are being visited), the tensors with inputs
  below it are in \<^verbatim>\<open>ps\<close> as well.\<close>

definition closed_under :: "(nat \<Rightarrow> 'v pyobj list) \<Rightarrow> nat set \<Rightarrow> nat set \<Rightarrow> bool" where
  "closed_under g open_idents ps \<longleftrightarrow>
     (\<forall>i \<in> ps. i \<notin> open_idents \<longrightarrow> idents_with_inputs_list (g i) \<subseteq> ps)"

section \<open>An example graph\<close>

text \<open>A formatter for the examples. It stands for \<^verbatim>\<open>str\<close>: a string is rendered as
  itself; what any other object is rendered as is external, and stands as a fixed tag.\<close>

fun example_str :: "'v pyobj \<Rightarrow> string" where
  "example_str (PyStr s) = s"
| "example_str obj = ''<object>''"

text \<open>An array formatter for the examples: a one-dimensional array of one-digit
  numbers that fits on a line, as \<^verbatim>\<open>np.array2string\<close> renders it. With more than
  \<^verbatim>\<open>threshold\<close> elements the array is summarised to its first and last three.\<close>

definition full_array :: "nat list \<Rightarrow> string" where
  "full_array v = ''['' @ join '' '' (map str_nat v) @ '']''"

definition summarized_array :: "nat list \<Rightarrow> string" where
  "summarized_array v =
     ''['' @ join '' '' (map str_nat (take 3 v)) @ '' ... ''
        @ join '' '' (map str_nat (drop (length v - 3) v)) @ '']''"

definition example_a2s :: "nat list \<Rightarrow> nat \<Rightarrow> string \<Rightarrow> string" where
  "example_a2s v threshold pre =
     (if threshold < length v then summarized_array v else full_array v)"

definition example_attrs :: "nat \<Rightarrow> string \<Rightarrow> nat list tensor_attrs" where
  "example_attrs i nm =
     \<lparr>tf_Tensor = False, ident = i, hash_raises = None, value_index = IntA 0, dtype = DType (StrA ''float32''),
      shape = Inr [None, Some 3], name = StrA nm, eval = Inl (OtherError ''no session'')\<rparr>"

text \<open>A diamond: \<^verbatim>\<open>add = exp(neg(x)) + log(neg(x))\<close>, where the two consumers share the
  one tensor \<^verbatim>\<open>neg\<close>.\<close>

definition example_x :: "nat list pyobj" where
  "example_x = PyTensor (example_attrs 1 ''x:0'') (OpObj (Op ''Placeholder'' (InputsList []) (NodeDef [])))"

definition example_neg :: "nat list pyobj" where
  "example_neg = PyTensor (example_attrs 2 ''neg:0'') (OpObj (Op ''Neg'' (InputsList [example_x]) (NodeDef [])))"

definition example_exp :: "nat list pyobj" where
  "example_exp = PyTensor (example_attrs 3 ''exp:0'') (OpObj (Op ''Exp'' (InputsList [example_neg]) (NodeDef [])))"

definition example_log :: "nat list pyobj" where
  "example_log = PyTensor (example_attrs 4 ''log:0'') (OpObj (Op ''Log'' (InputsList [example_neg]) (NodeDef [])))"

definition example_add :: "nat list pyobj" where
  "example_add = PyTensor (example_attrs 5 ''add:0'')
     (OpObj (Op ''Add'' (InputsList [example_exp, example_log]) (NodeDef [])))"

definition example_printer :: "nat list TFlowPrinter" where
  "example_printer = init_TFlowPrinter example_str []"

text \<open>A constant of a symbolic graph, its payload in the \<^verbatim>\<open>value\<close> attribute of the
  node definition, and a product whose two inputs are the same constant.\<close>

definition example_const :: "nat list \<Rightarrow> nat list pyobj" where
  "example_const v = PyTensor (example_attrs 6 ''c:0'')
     (OpObj (Op ''Const'' (InputsList []) (NodeDef [(''value'', v)])))"

definition example_mul :: "nat list pyobj" where
  "example_mul = PyTensor (example_attrs 7 ''mul:0'')
     (OpObj (Op ''Mul'' (InputsList [example_const [1, 2, 3], example_const [1, 2, 3]])
        (NodeDef [])))"

definition digits_21 :: "nat list" where
  "digits_21 = [1, 2, 3, 4, 5, 6, 7, 8, 9, 0, 1, 2, 3, 4, 5, 6, 7, 8, 9, 0, 1]"

text \<open>The attributes of a \<^verbatim>\<open>tf.Tensor\<close> that cannot be hashed, the diamond built from
  given attributes, and the inputs of the diamond's tensors by identity.\<close>

definition example_tf_attrs :: "nat \<Rightarrow> string \<Rightarrow> nat list tensor_attrs" where
  "example_tf_attrs i nm =
     (example_attrs i nm)\<lparr>tf_Tensor := True,
                           hash_raises := Some (TypeError ''Tensor is unhashable'')\<rparr>"

definition example_diamond :: "(nat \<Rightarrow> string \<Rightarrow> nat list tensor_attrs) \<Rightarrow> nat list pyobj" where
  "example_diamond attrs =
     (let x = PyTensor (attrs 1 ''x:0'') (OpObj (Op ''Placeholder'' (InputsList []) (NodeDef [])));
          neg = PyTensor (attrs 2 ''neg:0'') (OpObj (Op ''Neg'' (InputsList [x]) (NodeDef [])))
      in PyTensor (attrs 5 ''add:0'')
           (OpObj (Op ''Add''
              (InputsList
                 [PyTensor (attrs 3 ''exp:0'') (OpObj (Op ''Exp'' (InputsList [neg]) (NodeDef []))),
                  PyTensor (attrs 4 ''log:0'') (OpObj (Op ''Log'' (InputsList [neg]) (NodeDef [])))])
              (NodeDef []))))"

definition example_inputs :: "nat \<Rightarrow> nat list pyobj list" where
  "example_inputs i =
     (if i = 5 then [example_exp, example_log]
      else if i = 3 \<or> i = 4 then [example_neg]
      else if i = 2 then [example_x]
      else [])"

section \<open>Basic facts\<close>

lemma println_fields [simp]:
  "indentation (println obj p) = indentation p"
  "formatter (println obj p) = formatter p"
  "printed_subgraphs (println obj p) = printed_subgraphs p"
  "buffer (println obj p) = buffer p @ [indentation p @ formatter p obj @ newline]"
  by (simp_all add: println_def format_def)

lemma println_eq:
  "println obj p = p\<lparr>buffer := buffer p @ [indentation p @ formatter p obj @ newline]\<rparr>"
  by (simp add: println_def format_def)

lemma indented_alt:
  "indented indent body p =
     (fst (body (p\<lparr>indentation := indentation p @ increment indent\<rparr>)),
      (snd (body (p\<lparr>indentation := indentation p @ increment indent\<rparr>)))
         \<lparr>indentation := indentation p\<rparr>)"
  by (simp add: indented_def case_prod_beta)

lemma dispatch_str [simp]:
  "tf_dprint_dispatch a2s (PyStr s) = (\<lambda>p. (None, println (PyStr s) p))"
  by (rule ext) simp

lemmas eval_simps = example_printer_def init_TFlowPrinter_def example_attrs_def
  str_dims_def str_int_def str_nat.simps digit_def prefix_def indented_alt println_eq

subsection \<open>The branches of the tensor case\<close>

lemma tensor_shape_raises:
  "shape_str (shape at) = Inl e \<Longrightarrow> tf_dprint_dispatch a2s (PyTensor at opa) p = (Some e, p)"
  by simp

lemma tensor_op_raises:
  "shape_str (shape at) = Inr shp
   \<Longrightarrow> tf_dprint_dispatch a2s (PyTensor at (OpRaises e)) p = (Some e, p)"
  by simp

lemma tensor_op_var:
  "shape_str (shape at) = Inr shp
   \<Longrightarrow> tf_dprint_dispatch a2s (PyTensor at (OpVar v)) p
       = (None, println (PyStr (prefix at (OpVar v) shp)) p)"
  by simp

lemma tensor_inputs_var:
  "shape_str (shape at) = Inr shp
   \<Longrightarrow> tf_dprint_dispatch a2s (PyTensor at (OpObj (Op ty (InputsVar v) nd))) p
       = indented (IndentStr ''|  '') (\<lambda>q. (None, println (PyStr (var_str v)) q))
           (println (PyStr (prefix at (OpObj (Op ty (InputsVar v) nd)) shp)) p)"
  by simp

lemma tensor_with_inputs:
  "shape_str (shape at) = Inr shp \<Longrightarrow> xs \<noteq> []
   \<Longrightarrow> tf_dprint_dispatch a2s (PyTensor at (OpObj (Op ty (InputsList xs) nd))) p
       = indented (IndentStr ''|  '')
           (\<lambda>q. case hash_raises at of
                  Some e \<Rightarrow> (Some e, q)
                | None \<Rightarrow>
                    if ident at \<notin> set (printed_subgraphs q)
                    then tf_dprint_inputs a2s xs
                           (q\<lparr>printed_subgraphs := printed_subgraphs q @ [ident at]\<rparr>)
                    else (None, println (PyStr ''...'') q))
           (println (PyStr (prefix at (OpObj (Op ty (InputsList xs) nd)) shp)) p)"
  by (simp cong: if_cong option.case_cong)

lemma tensor_unhashable:
  assumes "shape_str (shape at) = Inr shp" and "xs \<noteq> []" and "hash_raises at = Some e"
  shows "tf_dprint_dispatch a2s (PyTensor at (OpObj (Op ty (InputsList xs) nd))) p
       = (Some e, println (PyStr (prefix at (OpObj (Op ty (InputsList xs) nd)) shp)) p)"
  unfolding tensor_with_inputs [OF assms(1,2)] using assms(3) by (simp add: indented_alt)

lemma tensor_first_visit:
  assumes "shape_str (shape at) = Inr shp" and "xs \<noteq> []" and "hash_raises at = None"
    and "ident at \<notin> set (printed_subgraphs p)"
  shows "tf_dprint_dispatch a2s (PyTensor at (OpObj (Op ty (InputsList xs) nd))) p
       = (let p1 = println (PyStr (prefix at (OpObj (Op ty (InputsList xs) nd)) shp)) p;
              (r, p2) = tf_dprint_inputs a2s xs
                          (p1\<lparr>indentation := indentation p @ ''|  '',
                              printed_subgraphs := printed_subgraphs p @ [ident at]\<rparr>)
          in (r, p2\<lparr>indentation := indentation p\<rparr>))"
  unfolding tensor_with_inputs [OF assms(1,2)] using assms(3,4)
  by (simp add: indented_alt case_prod_beta Let_def)

lemma tensor_repeat_visit:
  assumes "shape_str (shape at) = Inr shp" and "xs \<noteq> []" and "hash_raises at = None"
    and "ident at \<in> set (printed_subgraphs p)"
  shows "tf_dprint_dispatch a2s (PyTensor at (OpObj (Op ty (InputsList xs) nd))) p
       = (None, p\<lparr>buffer := buffer p @
            [indentation p @ formatter p (PyStr (prefix at (OpObj (Op ty (InputsList xs) nd)) shp))
               @ newline,
             (indentation p @ ''|  '') @ formatter p (PyStr ''...'') @ newline]\<rparr>)"
  unfolding tensor_with_inputs [OF assms(1,2)] using assms(3,4)
  by (simp add: indented_alt println_eq)

lemma tensor_no_inputs:
  "shape_str (shape at) = Inr shp \<Longrightarrow> ty \<noteq> ''Const''
   \<Longrightarrow> tf_dprint_dispatch a2s (PyTensor at (OpObj (Op ty (InputsList []) nd))) p
       = (None, println (PyStr (prefix at (OpObj (Op ty (InputsList []) nd)) shp)) p)"
  by simp

lemma tensor_const:
  "shape_str (shape at) = Inr shp
   \<Longrightarrow> tf_dprint_dispatch a2s (PyTensor at (OpObj (Op ''Const'' (InputsList []) nd))) p
       = indented (IndentStr ''|  '')
           (\<lambda>q. if tf_Tensor at then
                  (case eval at of
                     Inl e \<Rightarrow> (Some e, q)
                   | Inr numpy_val \<Rightarrow>
                       (None, println (PyStr (a2s numpy_val 20 (indentation q))) q))
                else
                  (case nd of
                     NodeDefVar v \<Rightarrow> (None, println (PyStr (var_str v)) q)
                   | NodeDef attr \<Rightarrow>
                       (case map_of attr ''value'' of
                          None \<Rightarrow> (Some (KeyError ''value''), q)
                        | Some numpy_val \<Rightarrow>
                            (None, println (PyStr (a2s numpy_val 20 (indentation q))) q))))
           (println (PyStr (prefix at (OpObj (Op ''Const'' (InputsList []) nd)) shp)) p)"
  by (simp cong: if_cong sum.case_cong node_def.case_cong option.case_cong)

subsection \<open>What a traversal does to the printer\<close>

lemma extends_refl: "extends p p A"
  unfolding extends_def by (rule exI [of _ "[]"], rule exI [of _ "[]"]) simp

lemma extends_mono: "extends p p' A \<Longrightarrow> A \<subseteq> B \<Longrightarrow> extends p p' B"
  unfolding extends_def by blast

lemma extends_trans:
  assumes "extends p q A" and "extends q r B"
  shows "extends p r (A \<union> B)"
proof -
  from assms(1) obtain o1 a1 where
    q: "q = p\<lparr>buffer := buffer p @ o1, printed_subgraphs := printed_subgraphs p @ a1\<rparr>"
    and d1: "distinct a1" "set a1 \<inter> set (printed_subgraphs p) = {}" "set a1 \<subseteq> A"
    and l1: "\<forall>line \<in> set o1. \<exists>t. line = indentation p @ t"
    unfolding extends_def by blast
  from assms(2) obtain o2 a2 where
    r: "r = q\<lparr>buffer := buffer q @ o2, printed_subgraphs := printed_subgraphs q @ a2\<rparr>"
    and d2: "distinct a2" "set a2 \<inter> set (printed_subgraphs q) = {}" "set a2 \<subseteq> B"
    and l2: "\<forall>line \<in> set o2. \<exists>t. line = indentation q @ t"
    unfolding extends_def by blast
  have "r = p\<lparr>buffer := buffer p @ (o1 @ o2), printed_subgraphs := printed_subgraphs p @ (a1 @ a2)\<rparr>"
    using q r by simp
  moreover have "distinct (a1 @ a2)" using d1 d2 q by auto
  moreover have "set (a1 @ a2) \<inter> set (printed_subgraphs p) = {}" using d1 d2 q by auto
  moreover have "set (a1 @ a2) \<subseteq> A \<union> B" using d1 d2 by auto
  moreover have "\<forall>line \<in> set (o1 @ o2). \<exists>t. line = indentation p @ t"
    using l1 l2 q by auto
  ultimately show ?thesis unfolding extends_def by blast
qed

lemma extends_println: "extends p (println obj p) A"
  unfolding extends_def println_def
  by (rule exI [of _ "[format obj p @ newline]"], rule exI [of _ "[]"]) (simp add: format_def)

lemma extends_add:
  "i \<notin> set (printed_subgraphs p) \<Longrightarrow> i \<in> A
   \<Longrightarrow> extends p (p\<lparr>printed_subgraphs := printed_subgraphs p @ [i]\<rparr>) A"
  unfolding extends_def
  by (rule exI [of _ "[]"], rule exI [of _ "[i]"]) simp

lemma extends_scope:
  assumes "extends (p\<lparr>indentation := indentation p @ s\<rparr>) q A"
  shows "extends p (q\<lparr>indentation := indentation p\<rparr>) A"
proof -
  from assms obtain out added where
    q: "q = p\<lparr>indentation := indentation p @ s, buffer := buffer p @ out,
              printed_subgraphs := printed_subgraphs p @ added\<rparr>"
    and d: "distinct added" "set added \<inter> set (printed_subgraphs p) = {}" "set added \<subseteq> A"
    and l: "\<forall>line \<in> set out. \<exists>t. line = (indentation p @ s) @ t"
    unfolding extends_def by auto
  have "q\<lparr>indentation := indentation p\<rparr>
        = p\<lparr>buffer := buffer p @ out, printed_subgraphs := printed_subgraphs p @ added\<rparr>"
    using q by simp
  moreover have "\<forall>line \<in> set out. \<exists>t. line = indentation p @ t"
    using l by auto
  ultimately show ?thesis using d unfolding extends_def by blast
qed

lemma extends_indented:
  assumes "\<And>q. extends q (snd (body q)) A"
  shows "extends p (snd (indented indent body p)) A"
  using extends_scope [OF assms, of p "increment indent"]
  by (simp add: indented_alt)

lemma dispatch_extends:
  "extends p (snd (tf_dprint_dispatch a2s obj p)) (idents_with_inputs obj)"
  "extends p (snd (tf_dprint_inputs a2s xs p)) (idents_with_inputs_list xs)"
proof (induction a2s obj p and a2s xs p rule: tf_dprint_dispatch_tf_dprint_inputs.induct)
  case (1 a2s at opa p)
  show ?case
  proof (cases "shape_str (shape at)")
    case (Inl e)
    then show ?thesis by (simp add: extends_refl)
  next
    case (Inr shp)
    show ?thesis
    proof (cases opa)
      case (OpRaises e)
      with Inr show ?thesis by (simp add: extends_refl)
    next
      case (OpVar v)
      with Inr show ?thesis by (simp add: extends_println)
    next
      case (OpObj oper)
      obtain ty ins nd where oper: "oper = Op ty ins nd" by (cases oper)
      let ?p1 = "println (PyStr (prefix at opa shp)) p"
      have p1: "extends p ?p1 {}" by (rule extends_println)
      show ?thesis
      proof (cases ins)
        case (InputsVar v)
        have "extends ?p1 (snd (indented (IndentStr ''|  '')
                 (\<lambda>q. (None, println (PyStr (var_str v)) q)) ?p1)) {}"
          by (rule extends_indented) (simp add: extends_println)
        from extends_trans [OF p1 this] show ?thesis
          unfolding OpObj oper InputsVar tensor_inputs_var [OF Inr] by simp
      next
        case (InputsList xs)
        show ?thesis
        proof (cases "xs = []")
          case False
          let ?A = "insert (ident at) (idents_with_inputs_list xs)"
          have "extends ?p1 (snd (indented (IndentStr ''|  '')
              (\<lambda>q. case hash_raises at of
                     Some e \<Rightarrow> (Some e, q)
                   | None \<Rightarrow>
                       if ident at \<notin> set (printed_subgraphs q)
                       then tf_dprint_inputs a2s xs
                              (q\<lparr>printed_subgraphs := printed_subgraphs q @ [ident at]\<rparr>)
                       else (None, println (PyStr ''...'') q)) ?p1)) ?A"
          proof (rule extends_indented)
            fix q :: "'a TFlowPrinter"
            show "extends q (snd (case hash_raises at of
                     Some e \<Rightarrow> (Some e, q)
                   | None \<Rightarrow>
                       if ident at \<notin> set (printed_subgraphs q)
                       then tf_dprint_inputs a2s xs
                              (q\<lparr>printed_subgraphs := printed_subgraphs q @ [ident at]\<rparr>)
                       else (None, println (PyStr ''...'') q))) ?A"
            proof (cases "hash_raises at")
              case (Some e)
              then show ?thesis by (simp add: extends_refl)
            next
              case hashed: None
              show ?thesis
              proof (cases "ident at \<in> set (printed_subgraphs q)")
                case True
                with hashed show ?thesis by (simp add: extends_println)
              next
                case notin: False
                let ?q1 = "q\<lparr>printed_subgraphs := printed_subgraphs q @ [ident at]\<rparr>"
                have a: "extends q ?q1 {ident at}"
                  using notin by (simp add: extends_add)
                have e: "(None, ?p1) = tf_dprint_dispatch a2s (PyStr (prefix at opa shp)) p"
                  by simp
                have len: "0 < length xs" using False by simp
                have "extends ?q1 (snd (tf_dprint_inputs a2s xs ?q1)) (idents_with_inputs_list xs)"
                  using "1.IH"(4) [OF Inr OpObj oper e refl InputsList len hashed notin]
                  by (simp add: InputsList)
                from extends_trans [OF a this] show ?thesis
                  using notin hashed by simp
              qed
            qed
          qed
          from extends_trans [OF p1 this] show ?thesis
            unfolding OpObj oper InputsList tensor_with_inputs [OF Inr False]
            using False by simp
        next
          case True
          show ?thesis
          proof (cases "ty = ''Const''")
            case isconst: True
            have "extends ?p1 (snd (indented (IndentStr ''|  '')
              (\<lambda>q. if tf_Tensor at then
                  (case eval at of
                     Inl e \<Rightarrow> (Some e, q)
                   | Inr numpy_val \<Rightarrow>
                       (None, println (PyStr (a2s numpy_val 20 (indentation q))) q))
                else
                  (case nd of
                     NodeDefVar v \<Rightarrow> (None, println (PyStr (var_str v)) q)
                   | NodeDef attr \<Rightarrow>
                       (case map_of attr ''value'' of
                          None \<Rightarrow> (Some (KeyError ''value''), q)
                        | Some numpy_val \<Rightarrow>
                            (None, println (PyStr (a2s numpy_val 20 (indentation q))) q)))) ?p1)) {}"
              by (rule extends_indented)
                 (simp add: extends_println extends_refl split: sum.splits node_def.splits option.splits)
            from extends_trans [OF p1 this] show ?thesis
              unfolding OpObj oper InputsList True isconst tensor_const [OF Inr] by simp
          next
            case False
            from p1 show ?thesis
              unfolding OpObj oper InputsList True tensor_no_inputs [OF Inr False] by simp
          qed
        qed
      qed
    qed
  qed
next
  case (2 a2s ty ins nd p)
  then show ?case by (cases ins) (simp_all add: extends_refl)
next
  case (5 a2s op_input rest p)
  show ?case
  proof (cases "fst (tf_dprint_dispatch a2s op_input p)")
    case None
    then obtain p1 where d: "tf_dprint_dispatch a2s op_input p = (None, p1)"
      by (cases "tf_dprint_dispatch a2s op_input p") simp
    from "5.IH"(1) d have a: "extends p p1 (idents_with_inputs op_input)" by simp
    from "5.IH"(2) [OF d [symmetric] refl]
    have "extends p1 (snd (tf_dprint_inputs a2s rest p1)) (idents_with_inputs_list rest)" .
    from extends_trans [OF a this] d show ?thesis by simp
  next
    case (Some e)
    then obtain p1 where d: "tf_dprint_dispatch a2s op_input p = (Some e, p1)"
      by (cases "tf_dprint_dispatch a2s op_input p") simp
    from "5.IH"(1) d have "extends p p1 (idents_with_inputs op_input)" by simp
    then have "extends p p1 (idents_with_inputs_list (op_input # rest))"
      by (rule extends_mono) simp
    with d show ?thesis by simp
  qed
qed (simp_all add: extends_println extends_refl)

lemma extends_fields:
  assumes "extends p p' A"
  shows "indentation p' = indentation p" and "formatter p' = formatter p"
    and "set (printed_subgraphs p) \<subseteq> set (printed_subgraphs p')"
    and "set (printed_subgraphs p') \<subseteq> set (printed_subgraphs p) \<union> A"
    and "distinct (printed_subgraphs p) \<Longrightarrow> distinct (printed_subgraphs p')"
    and "\<exists>out. buffer p' = buffer p @ out \<and> (\<forall>line \<in> set out. \<exists>t. line = indentation p @ t)"
  using assms unfolding extends_def by auto

lemmas dispatch_fields = extends_fields [OF dispatch_extends(1)]
lemmas inputs_fields = extends_fields [OF dispatch_extends(2)]

subsection \<open>The tensor case as a header and what follows it\<close>

lemma tensor_case:
  assumes "shape_str (shape at) = Inr shp" and "opa = OpVar v \<or> opa = OpObj oper"
  shows "tf_dprint_dispatch a2s (PyTensor at opa) p
       = after_header a2s at opa (println (PyStr (prefix at opa shp)) p)"
  using assms by (auto simp: after_header_def split: op.splits inputs_attr.splits)

lemma after_header_shape:
  "after_header a2s (at\<lparr>shape := s\<rparr>) opa = after_header a2s at opa"
  by (rule ext)
     (simp add: after_header_def
        cong: if_cong option.case_cong op_attr.case_cong op.case_cong inputs_attr.case_cong)



subsection \<open>The tensors a traversal adds to the set of printed subgraphs\<close>

lemma no_inputs_printed:
  "tf_dprint_dispatch a2s (PyTensor at (OpObj (Op ty (InputsList []) nd)))
     (p\<lparr>printed_subgraphs := ps\<rparr>)
   = (fst (tf_dprint_dispatch a2s (PyTensor at (OpObj (Op ty (InputsList []) nd))) p),
      (snd (tf_dprint_dispatch a2s (PyTensor at (OpObj (Op ty (InputsList []) nd))) p))
         \<lparr>printed_subgraphs := ps\<rparr>)"
  by (simp add: indented_alt println_eq
      split: sum.splits node_def.splits option.splits)

lemma no_idents_printed:
  assumes "idents_with_inputs obj = {}"
  shows "set (printed_subgraphs (snd (tf_dprint_dispatch a2s obj p))) = set (printed_subgraphs p)"
  using dispatch_fields(3,4) [where p = p and a2s = a2s and obj = obj] assms by auto

lemma count_list_distinct:
  "distinct xs \<Longrightarrow> x \<in> set xs \<Longrightarrow> count_list xs x = 1"
  by (induction xs) (auto simp: count_list_0_iff)

lemma traversal_complete:
  "\<forall>U. consistent g obj \<longrightarrow> acyclic_graph obj \<longrightarrow> U \<inter> idents_with_inputs obj = {}
     \<longrightarrow> closed_under g U (set (printed_subgraphs p))
     \<longrightarrow> fst (tf_dprint_dispatch a2s obj p) = None
     \<longrightarrow> closed_under g U (set (printed_subgraphs (snd (tf_dprint_dispatch a2s obj p))))
         \<and> idents_with_inputs obj \<subseteq> set (printed_subgraphs (snd (tf_dprint_dispatch a2s obj p)))"
  "\<forall>U. consistent_list g xs \<longrightarrow> acyclic_list xs \<longrightarrow> U \<inter> idents_with_inputs_list xs = {}
     \<longrightarrow> closed_under g U (set (printed_subgraphs p))
     \<longrightarrow> fst (tf_dprint_inputs a2s xs p) = None
     \<longrightarrow> closed_under g U (set (printed_subgraphs (snd (tf_dprint_inputs a2s xs p))))
         \<and> idents_with_inputs_list xs \<subseteq> set (printed_subgraphs (snd (tf_dprint_inputs a2s xs p)))"
proof (induction a2s obj p and a2s xs p rule: tf_dprint_dispatch_tf_dprint_inputs.induct)
  case (1 a2s at opa p)
  show ?case
  proof (cases "idents_with_inputs (PyTensor at opa) = {}")
    case True
    from no_idents_printed [OF True, where a2s = a2s and p = p] True show ?thesis
      by (simp del: tf_dprint_dispatch.simps)
  next
    case False
    then obtain ty xs nd where opa: "opa = OpObj (Op ty (InputsList xs) nd)" and xs: "xs \<noteq> []"
      by (cases "(PyTensor at opa)" rule: idents_with_inputs.cases) (auto split: if_splits)
    let ?t = "PyTensor at (OpObj (Op ty (InputsList xs) nd))"
    show ?thesis
    proof (intro allI impI)
      fix U
      assume con: "consistent g (PyTensor at opa)" and acy: "acyclic_graph (PyTensor at opa)"
        and dis: "U \<inter> idents_with_inputs (PyTensor at opa) = {}"
        and clo: "closed_under g U (set (printed_subgraphs p))"
        and ok: "fst (tf_dprint_dispatch a2s (PyTensor at opa) p) = None"
      from ok obtain shp where shp: "shape_str (shape at) = Inr shp"
        by (cases "shape_str (shape at)") simp_all
      from ok have hashed: "hash_raises at = None"
        using tensor_unhashable [OF shp xs, where a2s = a2s and ty = ty and nd = nd and p = p] unfolding opa
        by (cases "hash_raises at") (simp_all del: tf_dprint_dispatch.simps)
      from con xs have g: "g (ident at) = xs" and con_xs: "consistent_list g xs"
        unfolding opa by simp_all
      from acy have acy_i: "ident at \<notin> idents_with_inputs_list xs" and acy_xs: "acyclic_list xs"
        unfolding opa by simp_all
      from dis xs have dis_i: "ident at \<notin> U" and dis_xs: "U \<inter> idents_with_inputs_list xs = {}"
        unfolding opa by auto
      show "closed_under g U
              (set (printed_subgraphs (snd (tf_dprint_dispatch a2s (PyTensor at opa) p))))
            \<and> idents_with_inputs (PyTensor at opa)
              \<subseteq> set (printed_subgraphs (snd (tf_dprint_dispatch a2s (PyTensor at opa) p)))"
      proof (cases "ident at \<in> set (printed_subgraphs p)")
        case True
        from tensor_repeat_visit [OF shp xs hashed True, where a2s = a2s and ty = ty and nd = nd]
        have same: "printed_subgraphs (snd (tf_dprint_dispatch a2s ?t p)) = printed_subgraphs p"
          by (simp del: tf_dprint_dispatch.simps)
        from clo True dis_i g have "idents_with_inputs_list xs \<subseteq> set (printed_subgraphs p)"
          unfolding closed_under_def by auto
        with clo True xs show ?thesis unfolding opa same by simp
      next
        case notin: False
        let ?p1 = "println (PyStr (prefix at opa shp)) p"
        let ?q = "?p1\<lparr>indentation := indentation ?p1 @ increment (IndentStr ''|  '')\<rparr>"
        let ?q1 = "?q\<lparr>printed_subgraphs := printed_subgraphs ?q @ [ident at]\<rparr>"
        let ?r = "tf_dprint_inputs a2s xs ?q1"
        have run: "tf_dprint_dispatch a2s ?t p = (fst ?r, (snd ?r)\<lparr>indentation := indentation p\<rparr>)"
          unfolding tensor_first_visit [OF shp xs hashed notin]
          by (simp add: case_prod_beta Let_def opa)
        with ok have ok_xs: "fst ?r = None" unfolding opa by (simp del: tf_dprint_dispatch.simps)
        have e: "(None, ?p1) = tf_dprint_dispatch a2s (PyStr (prefix at opa shp)) p" by simp
        have len: "0 < length xs" using xs by simp
        have notin_q: "ident at \<notin> set (printed_subgraphs ?q)" using notin by simp
        let ?V = "insert (ident at) U"
        have d': "?V \<inter> idents_with_inputs_list xs = {}" using dis_xs acy_i by auto
        have c': "closed_under g ?V (set (printed_subgraphs ?q1))"
          using clo unfolding closed_under_def by auto
        from "1.IH"(4) [OF shp opa refl e refl refl len hashed notin_q]
        have ih: "\<forall>U. consistent_list g xs \<longrightarrow> acyclic_list xs
             \<longrightarrow> U \<inter> idents_with_inputs_list xs = {}
             \<longrightarrow> closed_under g U (set (printed_subgraphs ?q1))
             \<longrightarrow> fst ?r = None
             \<longrightarrow> closed_under g U (set (printed_subgraphs (snd ?r)))
                 \<and> idents_with_inputs_list xs \<subseteq> set (printed_subgraphs (snd ?r))"
          by (simp del: tf_dprint_dispatch.simps(1))
        from ih con_xs acy_xs d' c' ok_xs
        have "closed_under g ?V (set (printed_subgraphs (snd ?r)))
              \<and> idents_with_inputs_list xs \<subseteq> set (printed_subgraphs (snd ?r))"
          by blast
        then have c2: "closed_under g ?V (set (printed_subgraphs (snd ?r)))"
          and sub: "idents_with_inputs_list xs \<subseteq> set (printed_subgraphs (snd ?r))"
          by simp_all
        have "set (printed_subgraphs ?q1) \<subseteq> set (printed_subgraphs (snd ?r))"
          by (rule inputs_fields(3))
        then have i_in: "ident at \<in> set (printed_subgraphs (snd ?r))" by simp
        have "closed_under g U (set (printed_subgraphs (snd ?r)))"
          using c2 sub g unfolding closed_under_def by auto
        with sub i_in xs show ?thesis unfolding opa run by simp
      qed
    qed
  qed
next
  case (2 a2s ty ins nd p)
  show ?case
  proof (cases ins)
    case (InputsVar v)
    then show ?thesis by simp
  next
    case (InputsList xs)
    with "2.IH" [OF InputsList] show ?thesis by simp
  qed
next
  case (5 a2s op_input rest p)
  show ?case
  proof (intro allI impI)
    fix U
    assume con: "consistent_list g (op_input # rest)" and acy: "acyclic_list (op_input # rest)"
      and dis: "U \<inter> idents_with_inputs_list (op_input # rest) = {}"
      and clo: "closed_under g U (set (printed_subgraphs p))"
      and ok: "fst (tf_dprint_inputs a2s (op_input # rest) p) = None"
    obtain r1 p1 where d: "tf_dprint_dispatch a2s op_input p = (r1, p1)"
      by (cases "tf_dprint_dispatch a2s op_input p")
    from ok d have r1: "r1 = None" by (cases r1) simp_all
    from ok d r1 have ok2: "fst (tf_dprint_inputs a2s rest p1) = None" by simp
    from "5.IH"(1) con acy dis clo d r1
    have c1: "closed_under g U (set (printed_subgraphs p1))"
      and s1: "idents_with_inputs op_input \<subseteq> set (printed_subgraphs p1)"
      by (auto simp del: tf_dprint_dispatch.simps)
    from "5.IH"(2) [OF d [unfolded r1, symmetric] refl] con acy dis c1 ok2
    have c2: "closed_under g U (set (printed_subgraphs (snd (tf_dprint_inputs a2s rest p1))))"
      and s2: "idents_with_inputs_list rest
                 \<subseteq> set (printed_subgraphs (snd (tf_dprint_inputs a2s rest p1)))"
      by auto
    have "set (printed_subgraphs p1)
            \<subseteq> set (printed_subgraphs (snd (tf_dprint_inputs a2s rest p1)))"
      by (rule inputs_fields(3))
    with c2 s1 s2 d r1
    show "closed_under g U
            (set (printed_subgraphs (snd (tf_dprint_inputs a2s (op_input # rest) p))))
          \<and> idents_with_inputs_list (op_input # rest)
            \<subseteq> set (printed_subgraphs (snd (tf_dprint_inputs a2s (op_input # rest) p)))"
      by (auto simp del: tf_dprint_dispatch.simps)
  qed
qed simp_all

text \<open>The trace of a diamond: a root whose operation consumes two tensors, each of them
  the output of an operation that consumes the shared tensor.\<close>

lemma diamond_trace:
  assumes ops: "op_s = OpObj (Op ty_s (InputsList xs) nd_s)"
      "op_a = OpObj (Op ty_a (InputsList [PyTensor at_s op_s]) nd_a)"
      "op_b = OpObj (Op ty_b (InputsList [PyTensor at_s op_s]) nd_b)"
      "op_r = OpObj (Op ty_r (InputsList [PyTensor at_a op_a, PyTensor at_b op_b]) nd_r)"
    and shapes: "shape_str (shape at_r) = Inr h_r" "shape_str (shape at_a) = Inr h_a"
      "shape_str (shape at_b) = Inr h_b" "shape_str (shape at_s) = Inr h_s"
    and hashes: "hash_raises at_r = None" "hash_raises at_a = None"
      "hash_raises at_b = None" "hash_raises at_s = None"
    and inputs: "xs \<noteq> []"
    and idents: "distinct [ident at_r, ident at_a, ident at_s, ident at_b]"
    and fresh: "set [ident at_r, ident at_a, ident at_s, ident at_b]
                  \<inter> set (printed_subgraphs p) = {}"
    and below: "ident at_b \<notin> idents_with_inputs_list xs"
    and visit: "tf_dprint_inputs a2s xs
        (p\<lparr>buffer := buffer p @
             [indentation p @ formatter p (PyStr (prefix at_r op_r h_r)) @ newline,
              (indentation p @ ''|  '') @ formatter p (PyStr (prefix at_a op_a h_a)) @ newline,
              (indentation p @ ''|  |  '') @ formatter p (PyStr (prefix at_s op_s h_s))
                @ newline],
           indentation := indentation p @ ''|  |  |  '',
           printed_subgraphs :=
             printed_subgraphs p @ [ident at_r, ident at_a, ident at_s]\<rparr>)
        = (None, q)"
  shows "tf_dprint_dispatch a2s (PyTensor at_r op_r) p
       = (None, q\<lparr>buffer := buffer q @
            [(indentation p @ ''|  '') @ formatter p (PyStr (prefix at_b op_b h_b)) @ newline,
             (indentation p @ ''|  |  '') @ formatter p (PyStr (prefix at_s op_s h_s))
               @ newline,
             (indentation p @ ''|  |  |  '') @ formatter p (PyStr ''...'') @ newline],
            indentation := indentation p,
            printed_subgraphs := printed_subgraphs q @ [ident at_b]\<rparr>)
     \<and> count_list (printed_subgraphs (snd (tf_dprint_dispatch a2s (PyTensor at_r op_r) p)))
         (ident at_s) = 1"
proof -
  let ?S = "PyTensor at_s op_s" and ?A = "PyTensor at_a op_a" and ?B = "PyTensor at_b op_b"
  let ?L_r = "indentation p @ formatter p (PyStr (prefix at_r op_r h_r)) @ newline"
  let ?L_a = "(indentation p @ ''|  '') @ formatter p (PyStr (prefix at_a op_a h_a)) @ newline"
  let ?L_b = "(indentation p @ ''|  '') @ formatter p (PyStr (prefix at_b op_b h_b)) @ newline"
  let ?L_s = "(indentation p @ ''|  |  '') @ formatter p (PyStr (prefix at_s op_s h_s)) @ newline"
  let ?dots = "(indentation p @ ''|  |  |  '') @ formatter p (PyStr ''...'') @ newline"
  let ?u0 = "p\<lparr>buffer := buffer p @ [?L_r], indentation := indentation p @ ''|  '',
                printed_subgraphs := printed_subgraphs p @ [ident at_r]\<rparr>"
  let ?v0 = "p\<lparr>buffer := buffer p @ [?L_r, ?L_a], indentation := indentation p @ ''|  |  '',
                printed_subgraphs := printed_subgraphs p @ [ident at_r, ident at_a]\<rparr>"
  let ?q0 = "p\<lparr>buffer := buffer p @ [?L_r, ?L_a, ?L_s],
                indentation := indentation p @ ''|  |  |  '',
                printed_subgraphs := printed_subgraphs p @ [ident at_r, ident at_a, ident at_s]\<rparr>"
  have q: "q = snd (tf_dprint_inputs a2s xs ?q0)" using visit by simp
  have q_ind: "indentation q = indentation p @ ''|  |  |  ''"
    unfolding q using inputs_fields(1) [where p = "?q0" and a2s = a2s and xs = xs] by simp
  have q_fmt: "formatter q = formatter p"
    unfolding q using inputs_fields(2) [where p = "?q0" and a2s = a2s and xs = xs] by simp
  have q_sub: "set (printed_subgraphs ?q0) \<subseteq> set (printed_subgraphs q)"
    unfolding q by (rule inputs_fields(3))
  have q_sup: "set (printed_subgraphs q)
                 \<subseteq> set (printed_subgraphs ?q0) \<union> idents_with_inputs_list xs"
    unfolding q by (rule inputs_fields(4))
  have s_in: "ident at_s \<in> set (printed_subgraphs q)" using q_sub by simp
  have b_notin: "ident at_b \<notin> set (printed_subgraphs q)"
    using q_sup idents fresh below by auto
  have s_fresh: "ident at_s \<notin> set (printed_subgraphs ?v0)" using idents fresh by auto
  have S1: "tf_dprint_dispatch a2s ?S ?v0 = (None, q\<lparr>indentation := indentation p @ ''|  |  ''\<rparr>)"
    unfolding ops(1) tensor_first_visit [OF shapes(4) inputs hashes(4) s_fresh]
    using visit by (simp add: println_eq ops(1) [symmetric])
  have a_fresh: "ident at_a \<notin> set (printed_subgraphs ?u0)" using idents fresh by auto
  have ne1: "[?S] \<noteq> []" by simp
  have A1: "tf_dprint_dispatch a2s ?A ?u0 = (None, q\<lparr>indentation := indentation p @ ''|  ''\<rparr>)"
    unfolding ops(2) tensor_first_visit [OF shapes(2) ne1 hashes(2) a_fresh]
    using S1 by (simp add: println_eq ops(2) [symmetric] del: tf_dprint_dispatch.simps)
  let ?x0 = "q\<lparr>buffer := buffer q @ [?L_b], indentation := indentation p @ ''|  |  '',
                printed_subgraphs := printed_subgraphs q @ [ident at_b]\<rparr>"
  have s_seen: "ident at_s \<in> set (printed_subgraphs ?x0)" using s_in by simp
  have S2: "tf_dprint_dispatch a2s ?S ?x0
          = (None, ?x0\<lparr>buffer := buffer q @ [?L_b, ?L_s, ?dots]\<rparr>)"
    unfolding ops(1) tensor_repeat_visit [OF shapes(4) inputs hashes(4) s_seen]
    by (simp add: q_fmt ops(1) [symmetric])
  let ?u1 = "q\<lparr>indentation := indentation p @ ''|  ''\<rparr>"
  have b_fresh: "ident at_b \<notin> set (printed_subgraphs ?u1)" using b_notin by simp
  have B1: "tf_dprint_dispatch a2s ?B ?u1
          = (None, q\<lparr>buffer := buffer q @ [?L_b, ?L_s, ?dots],
                      indentation := indentation p @ ''|  '',
                      printed_subgraphs := printed_subgraphs q @ [ident at_b]\<rparr>)"
    unfolding ops(3) tensor_first_visit [OF shapes(3) ne1 hashes(3) b_fresh]
    using S2 by (simp add: println_eq q_fmt ops(3) [symmetric] del: tf_dprint_dispatch.simps)
  have r_fresh: "ident at_r \<notin> set (printed_subgraphs p)" using fresh by auto
  have ne2: "[?A, ?B] \<noteq> []" by simp
  have R: "tf_dprint_dispatch a2s (PyTensor at_r op_r) p
       = (None, q\<lparr>buffer := buffer q @ [?L_b, ?L_s, ?dots],
            indentation := indentation p,
            printed_subgraphs := printed_subgraphs q @ [ident at_b]\<rparr>)"
    unfolding ops(4) tensor_first_visit [OF shapes(1) ne2 hashes(1) r_fresh]
    using A1 B1 by (simp add: println_eq ops(4) [symmetric] del: tf_dprint_dispatch.simps)
  from dispatch_extends(2) [where p = "?q0" and a2s = a2s and xs = xs] obtain out added where
    q_eq: "q = ?q0\<lparr>buffer := buffer ?q0 @ out,
                    printed_subgraphs := printed_subgraphs ?q0 @ added\<rparr>"
    and disj: "set added \<inter> set (printed_subgraphs ?q0) = {}"
    unfolding extends_def q by blast
  have "ident at_s \<notin> set added" using disj by auto
  moreover have "ident at_s \<notin> set (printed_subgraphs p)" using fresh by auto
  moreover have "printed_subgraphs q
                   = printed_subgraphs p @ [ident at_r, ident at_a, ident at_s] @ added"
    using q_eq by simp
  ultimately have "count_list (printed_subgraphs q @ [ident at_b]) (ident at_s) = 1"
    using idents by (simp add: count_list_0_iff)
  with R show ?thesis by (simp del: tf_dprint_dispatch.simps)
qed

section \<open>The claims\<close>

subsection \<open>C3: a root without an operation\<close>

text \<open>
  C3. When the root is a \<^verbatim>\<open>tf.Tensor\<close> whose \<^verbatim>\<open>op\<close> accessor is not available
  (it raises \<^verbatim>\<open>AttributeError\<close>, as a tensor of an eager context does),
  \<^verbatim>\<open>tf_dprint\<close> raises the \<^verbatim>\<open>ValueError\<close> whose message asks for the object to be
  recreated with eager mode disabled, in graph mode. Nothing is written before: the
  caller's printer and \<^verbatim>\<open>sys.stdout\<close> are as they were.
\<close>

theorem eager_root_raises:
  assumes "tf_Tensor at"
  shows "tf_dprint py_str a2s (PyTensor at (OpRaises (AttributeError m))) printer sys_stdout
       = (Some (ValueError
            (''TensorFlow Operation not available; try recreating the object with ''
             @ ''eager-mode disabled (e.g. within ''
             @ ''`tensorflow.python.eager.context.graph_mode`)'')),
          printer, sys_stdout)"
  using assms by (simp add: tf_dprint_def not_available_def)

theorem eager_root_raises_witness:
  "tf_Tensor ((example_attrs 1 ''x:0'')\<lparr>tf_Tensor := True\<rparr>)
   \<and> tf_dprint example_str example_a2s
        (PyTensor ((example_attrs 1 ''x:0'')\<lparr>tf_Tensor := True\<rparr>)
           (OpRaises (AttributeError ''Tensor.op is meaningless when eager execution is enabled.'')))
        (Some example_printer) [''earlier output'']
     = (Some (ValueError
            (''TensorFlow Operation not available; try recreating the object with ''
             @ ''eager-mode disabled (e.g. within ''
             @ ''`tensorflow.python.eager.context.graph_mode`)'')),
        Some example_printer, [''earlier output''])"
proof -
  have h: "tf_Tensor ((example_attrs 1 ''x:0'')\<lparr>tf_Tensor := True\<rparr>)" by simp
  show ?thesis by (intro conjI, rule h, rule eager_root_raises [OF h])
qed

subsection \<open>C5: indentation scopes\<close>

lemma indented_all_Cons:
  "indented_all (i # rest) body p =
     (fst (body (p\<lparr>indentation := indentation p @ concat (map increment (i # rest))\<rparr>)),
      (snd (body (p\<lparr>indentation := indentation p @ concat (map increment (i # rest))\<rparr>)))
         \<lparr>indentation := indentation p\<rparr>)"
proof (induction rest arbitrary: i p)
  case Nil
  show ?case by (simp add: indented_alt)
next
  case (Cons j rest)
  have "indented_all (i # j # rest) body p = indented i (indented_all (j # rest) body) p"
    by simp
  then show ?case
    by (simp add: indented_alt [of i] Cons.IH del: indented_all.simps)
qed

text \<open>
  C5. The body of an \<^verbatim>\<open>indented\<close> block runs with the indentation it was entered
  with followed by the increment; under nested blocks it runs with the indentation
  followed by all their increments in order. An integer increment is that many spaces,
  a string increment the string itself. Whatever the body returns, a normal result (an
  early return included) or an exception, and whatever it did to the indentation, the
  indentation after the block is the one before it. A traversal, which only changes the
  indentation through such blocks, leaves it as it found it, also when it raises.
\<close>

theorem indentation_scopes:
  "indented indent body p =
     (fst (body (p\<lparr>indentation := indentation p @ increment indent\<rparr>)),
      (snd (body (p\<lparr>indentation := indentation p @ increment indent\<rparr>)))
         \<lparr>indentation := indentation p\<rparr>)
   \<and> indented_all (i # rest) body p =
     (fst (body (p\<lparr>indentation := indentation p @ concat (map increment (i # rest))\<rparr>)),
      (snd (body (p\<lparr>indentation := indentation p @ concat (map increment (i # rest))\<rparr>)))
         \<lparr>indentation := indentation p\<rparr>)
   \<and> increment (IndentInt (int n)) = replicate n CHR '' ''
   \<and> increment (IndentStr s) = s
   \<and> indentation (snd (indented indent body p)) = indentation p
   \<and> indentation (snd (tf_dprint_dispatch a2s obj p)) = indentation p
   \<and> indentation (snd (tf_dprint_inputs a2s xs p)) = indentation p"
proof (intro conjI)
  show "indented indent body p =
     (fst (body (p\<lparr>indentation := indentation p @ increment indent\<rparr>)),
      (snd (body (p\<lparr>indentation := indentation p @ increment indent\<rparr>)))
         \<lparr>indentation := indentation p\<rparr>)"
    by (rule indented_alt)
  show "indented_all (i # rest) body p =
     (fst (body (p\<lparr>indentation := indentation p @ concat (map increment (i # rest))\<rparr>)),
      (snd (body (p\<lparr>indentation := indentation p @ concat (map increment (i # rest))\<rparr>)))
         \<lparr>indentation := indentation p\<rparr>)"
    by (rule indented_all_Cons)
  show "increment (IndentInt (int n)) = replicate n CHR '' ''" by simp
  show "increment (IndentStr s) = s" by simp
  show "indentation (snd (indented indent body p)) = indentation p"
    by (simp add: indented_alt)
  show "indentation (snd (tf_dprint_dispatch a2s obj p)) = indentation p"
    by (rule dispatch_fields(1))
  show "indentation (snd (tf_dprint_inputs a2s xs p)) = indentation p"
    by (rule inputs_fields(1))
qed

subsection \<open>C9: the root handed to the dispatcher\<close>

text \<open>
  C9, as stated, fails: a list root is not taken apart. For the list of the two tensors
  \<^verbatim>\<open>x\<close> and \<^verbatim>\<open>neg(x)\<close> the entry point writes one line, the formatter's rendering of
  the list object, while a visit of the two elements writes three lines.
\<close>

theorem list_root_counterexample:
  "tf_dprint example_str example_a2s (PyList [example_x, example_neg]) None []
     = (None, None, [example_str (PyList [example_x, example_neg]) @ newline])
   \<and> length (buffer (snd (tf_dprint_inputs example_a2s [example_x, example_neg] example_printer))) = 3"
  by (simp add: tf_dprint_def init_TFlowPrinter_def example_printer_def example_x_def
      example_neg_def example_attrs_def indented_alt)

text \<open>
  C9, amended. The entry point hands its root to the dispatcher as it is. A list root
  falls to the default case: one line is written, the formatter's rendering of the list
  itself, and no element is visited. An operation root and a tensor root with an
  operation go to the operation and tensor cases, on the caller's printer or on a fresh
  printer that writes to \<^verbatim>\<open>sys.stdout\<close>.
\<close>

theorem root_dispatch:
  "tf_dprint py_str a2s (PyList xs) None sys_stdout
     = (None, None, sys_stdout @ [py_str (PyList xs) @ newline])
   \<and> tf_dprint py_str a2s (PyList xs) (Some p) sys_stdout
     = (None, Some (p\<lparr>buffer := buffer p @ [indentation p @ formatter p (PyList xs) @ newline]\<rparr>),
        sys_stdout)
   \<and> tf_dprint py_str a2s (PyOp oper) (Some p) sys_stdout
     = (fst (tf_dprint_dispatch a2s (PyOp oper) p),
        Some (snd (tf_dprint_dispatch a2s (PyOp oper) p)), sys_stdout)
   \<and> tf_dprint py_str a2s (PyTensor at (OpObj oper)) (Some p) sys_stdout
     = (fst (tf_dprint_dispatch a2s (PyTensor at (OpObj oper)) p),
        Some (snd (tf_dprint_dispatch a2s (PyTensor at (OpObj oper)) p)), sys_stdout)
   \<and> tf_dprint py_str a2s (PyOp oper) None sys_stdout
     = (fst (tf_dprint_dispatch a2s (PyOp oper) (init_TFlowPrinter py_str sys_stdout)), None,
        buffer (snd (tf_dprint_dispatch a2s (PyOp oper) (init_TFlowPrinter py_str sys_stdout))))
   \<and> tf_dprint py_str a2s (PyTensor at (OpObj oper)) None sys_stdout
     = (fst (tf_dprint_dispatch a2s (PyTensor at (OpObj oper)) (init_TFlowPrinter py_str sys_stdout)),
        None,
        buffer (snd (tf_dprint_dispatch a2s (PyTensor at (OpObj oper))
                       (init_TFlowPrinter py_str sys_stdout))))"
  by (simp add: tf_dprint_def init_TFlowPrinter_def println_eq case_prod_beta
      del: tf_dprint_dispatch.simps(1,2))

subsection \<open>C6: a tensor whose operation is a logic variable\<close>

text \<open>
  C6, as stated, fails: the shape is read before the header is written. When the shape
  accessor of a tensor whose \<^verbatim>\<open>op\<close> is a logic variable raises \<^verbatim>\<open>TypeError\<close>, the
  visit raises that exception and writes no header.
\<close>

theorem unbound_op_counterexample:
  "tf_dprint_dispatch example_a2s
     (PyTensor ((example_attrs 7 ''y:0'')\<lparr>shape := Inl (TypeError ''no shape'')\<rparr>)
        (OpVar (Var ''~op'')))
     example_printer
   = (Some (TypeError ''no shape''), example_printer)"
  by (simp add: example_attrs_def)

text \<open>
  C6, amended. A visit of a tensor whose \<^verbatim>\<open>op\<close> is a logic variable, and whose shape
  is given or whose shape accessor raises \<^verbatim>\<open>ValueError\<close> or \<^verbatim>\<open>AttributeError\<close> (so
  that there is a shape string \<^verbatim>\<open>shp\<close>), writes the header line, with the variable in
  the place of the operation type, and nothing else: no line follows, nothing is
  visited, the set of printed subgraphs and the indentation are as before, and no
  exception is raised.
\<close>

theorem unbound_op_header_only:
  assumes "shape_str (shape at) = Inr shp"
  shows "tf_dprint_dispatch a2s (PyTensor at (OpVar v)) p
       = (None, p\<lparr>buffer := buffer p @
            [indentation p
               @ formatter p (PyStr (''Tensor('' @ var_str v @ ''):'' @ format_atom (value_index at)
                   @ '','' @ tab @ ''dtype='' @ dtype_label (dtype at)
                   @ '','' @ tab @ ''shape='' @ shp
                   @ '','' @ tab @ dquote @ format_atom (name at) @ dquote))
               @ newline]\<rparr>)"
  using assms by (simp add: println_eq prefix_def)

theorem unbound_op_header_only_witness:
  "shape_str (shape (example_attrs 7 ''y:0'')) = Inr ''[None, 3]''
   \<and> tf_dprint_dispatch example_a2s (PyTensor (example_attrs 7 ''y:0'') (OpVar (Var ''~op'')))
        example_printer
     = (None, example_printer\<lparr>buffer :=
          [''Tensor(~op):0,'' @ tab @ ''dtype=float32,'' @ tab @ ''shape=[None, 3],'' @ tab
             @ dquote @ ''y:0'' @ dquote @ newline]\<rparr>)"
proof -
  have h: "shape_str (shape (example_attrs 7 ''y:0'')) = Inr ''[None, 3]''"
    by (simp add: eval_simps)
  show ?thesis
    using h unbound_op_header_only [OF h, of example_a2s "Var ''~op''" example_printer]
    by (simp add: eval_simps)
qed

subsection \<open>C4: the header line\<close>




subsection \<open>C7: the payload of a constant\<close>

text \<open>
  C7, as stated, fails: the shape is read before anything is written. When the shape
  accessor of a constant with a payload raises \<^verbatim>\<open>TypeError\<close>, the visit raises that
  exception and the payload is not rendered.
\<close>

theorem const_counterexample:
  "tf_dprint_dispatch example_a2s
     (PyTensor ((example_attrs 6 ''c:0'')\<lparr>shape := Inl (TypeError ''no shape'')\<rparr>)
        (OpObj (Op ''Const'' (InputsList []) (NodeDef [(''value'', [1, 2, 3])]))))
     example_printer
   = (Some (TypeError ''no shape''), example_printer)"
  by (simp add: example_attrs_def)

text \<open>
  C7, amended. A visit of a tensor whose operation has type \<^verbatim>\<open>Const\<close> and no inputs,
  whose shape is given or whose shape accessor raises \<^verbatim>\<open>ValueError\<close> or
  \<^verbatim>\<open>AttributeError\<close>, and whose payload can be read (from \<^verbatim>\<open>eval\<close> for a
  \<^verbatim>\<open>tf.Tensor\<close>, from the \<^verbatim>\<open>value\<close> attribute of the node definition otherwise),
  writes the header and then one entry, one level deeper: the payload as
  \<^verbatim>\<open>np.array2string\<close> renders it with threshold 20 and with the indentation of that
  level as prefix. For an array formatter that summarises above its threshold and
  renders in full up to it, the entry is the summary for a payload of more than 20
  elements and the full array for at most 20.
\<close>

theorem const_payload:
  assumes "shape_str (shape at) = Inr shp"
    and "(tf_Tensor at \<and> eval at = Inr v)
         \<or> (\<not> tf_Tensor at \<and> nd = NodeDef attr \<and> map_of attr ''value'' = Some v)"
    and "\<And>w threshold pre.
           a2s w threshold pre
             = (if threshold < size_of w then summarized w pre else full w pre)"
  shows "tf_dprint_dispatch a2s (PyTensor at (OpObj (Op ''Const'' (InputsList []) nd))) p
       = (None, p\<lparr>buffer := buffer p @
            [indentation p
               @ formatter p (PyStr (prefix at (OpObj (Op ''Const'' (InputsList []) nd)) shp))
               @ newline,
             (indentation p @ ''|  '')
               @ formatter p (PyStr (a2s v 20 (indentation p @ ''|  ''))) @ newline]\<rparr>)
     \<and> a2s v 20 (indentation p @ ''|  '')
       = (if 20 < size_of v then summarized v (indentation p @ ''|  '')
          else full v (indentation p @ ''|  ''))"
proof
  from assms(2)
  show "tf_dprint_dispatch a2s (PyTensor at (OpObj (Op ''Const'' (InputsList []) nd))) p
       = (None, p\<lparr>buffer := buffer p @
            [indentation p
               @ formatter p (PyStr (prefix at (OpObj (Op ''Const'' (InputsList []) nd)) shp))
               @ newline,
             (indentation p @ ''|  '')
               @ formatter p (PyStr (a2s v 20 (indentation p @ ''|  ''))) @ newline]\<rparr>)"
    unfolding tensor_const [OF assms(1)] by (auto simp: indented_alt println_eq)
  show "a2s v 20 (indentation p @ ''|  '')
       = (if 20 < size_of v then summarized v (indentation p @ ''|  '')
          else full v (indentation p @ ''|  ''))"
    by (rule assms(3))
qed

theorem const_payload_witness:
  "shape_str (shape (example_attrs 6 ''c:0'')) = Inr ''[None, 3]''
   \<and> (\<forall>w threshold pre.
         example_a2s w threshold pre
           = (if threshold < length w then summarized_array w else full_array w))
   \<and> tf_dprint_dispatch example_a2s (example_const digits_21) example_printer
     = (None, example_printer\<lparr>buffer :=
          [''Tensor(Const):0,'' @ tab @ ''dtype=float32,'' @ tab @ ''shape=[None, 3],'' @ tab
             @ dquote @ ''c:0'' @ dquote @ newline,
           ''|  [1 2 3 ... 9 0 1]'' @ newline]\<rparr>)
   \<and> tf_dprint_dispatch example_a2s (example_const (butlast digits_21)) example_printer
     = (None, example_printer\<lparr>buffer :=
          [''Tensor(Const):0,'' @ tab @ ''dtype=float32,'' @ tab @ ''shape=[None, 3],'' @ tab
             @ dquote @ ''c:0'' @ dquote @ newline,
           ''|  [1 2 3 4 5 6 7 8 9 0 1 2 3 4 5 6 7 8 9 0]'' @ newline]\<rparr>)"
proof -
  have h: "shape_str (shape (example_attrs 6 ''c:0'')) = Inr ''[None, 3]''"
    by (simp add: eval_simps)
  have c: "\<And>w threshold pre.
         example_a2s w threshold pre
           = (if threshold < length w then (\<lambda>w pre. summarized_array w) w pre
              else (\<lambda>w pre. full_array w) w pre)"
    by (simp add: example_a2s_def)
  have r21: "(tf_Tensor (example_attrs 6 ''c:0'') \<and> eval (example_attrs 6 ''c:0'') = Inr digits_21)
         \<or> (\<not> tf_Tensor (example_attrs 6 ''c:0'')
             \<and> NodeDef [(''value'', digits_21)] = NodeDef [(''value'', digits_21)]
             \<and> map_of [(''value'', digits_21)] ''value'' = Some digits_21)"
    by (simp add: example_attrs_def)
  have r20: "(tf_Tensor (example_attrs 6 ''c:0'')
               \<and> eval (example_attrs 6 ''c:0'') = Inr (butlast digits_21))
         \<or> (\<not> tf_Tensor (example_attrs 6 ''c:0'')
             \<and> NodeDef [(''value'', butlast digits_21)] = NodeDef [(''value'', butlast digits_21)]
             \<and> map_of [(''value'', butlast digits_21)] ''value'' = Some (butlast digits_21))"
    by (simp add: example_attrs_def)
  have s21: "summarized_array digits_21 = ''[1 2 3 ... 9 0 1]''"
    by (simp add: digits_21_def summarized_array_def str_nat.simps digit_def)
  have f20: "full_array (butlast digits_21) = ''[1 2 3 4 5 6 7 8 9 0 1 2 3 4 5 6 7 8 9 0]''"
    by (simp add: digits_21_def full_array_def str_nat.simps digit_def)
  have l21: "length digits_21 = 21" by (simp add: digits_21_def)
  have hdr: "prefix (example_attrs 6 ''c:0'')
               (OpObj (Op ''Const'' (InputsList []) (NodeDef [(''value'', w)]))) ''[None, 3]''
             = ''Tensor(Const):0,'' @ tab @ ''dtype=float32,'' @ tab @ ''shape=[None, 3],'' @ tab
                 @ dquote @ ''c:0'' @ dquote" for w :: "nat list"
    by (simp add: eval_simps)
  from const_payload [where a2s = example_a2s and size_of = length
      and summarized = "\<lambda>w pre. summarized_array w" and full = "\<lambda>w pre. full_array w"
      and p = example_printer, OF h r21 c]
  have a: "tf_dprint_dispatch example_a2s (example_const digits_21) example_printer
     = (None, example_printer\<lparr>buffer :=
          [''Tensor(Const):0,'' @ tab @ ''dtype=float32,'' @ tab @ ''shape=[None, 3],'' @ tab
             @ dquote @ ''c:0'' @ dquote @ newline,
           ''|  [1 2 3 ... 9 0 1]'' @ newline]\<rparr>)"
    unfolding example_const_def hdr
    by (simp add: s21 l21 example_printer_def init_TFlowPrinter_def
        del: tf_dprint_dispatch.simps)
  from const_payload [where a2s = example_a2s and size_of = length
      and summarized = "\<lambda>w pre. summarized_array w" and full = "\<lambda>w pre. full_array w"
      and p = example_printer, OF h r20 c]
  have b: "tf_dprint_dispatch example_a2s (example_const (butlast digits_21)) example_printer
     = (None, example_printer\<lparr>buffer :=
          [''Tensor(Const):0,'' @ tab @ ''dtype=float32,'' @ tab @ ''shape=[None, 3],'' @ tab
             @ dquote @ ''c:0'' @ dquote @ newline,
           ''|  [1 2 3 4 5 6 7 8 9 0 1 2 3 4 5 6 7 8 9 0]'' @ newline]\<rparr>)"
    unfolding example_const_def hdr
    by (simp add: f20 l21 example_printer_def init_TFlowPrinter_def
        del: tf_dprint_dispatch.simps)
  from h a b show ?thesis by (simp add: example_a2s_def)
qed

subsection \<open>C8: a shape accessor that raises\<close>

text \<open>
  C8, as stated, fails on three points. Not every exception of the shape accessor is
  caught: when it raises \<^verbatim>\<open>TypeError\<close> on the tensor \<^verbatim>\<open>neg(x)\<close>, the visit raises
  that exception, writes no header and visits no input. When the shape accessor raises
  \<^verbatim>\<open>ValueError\<close> and the \<^verbatim>\<open>op\<close> accessor raises too, no header is written either.
  And when the shape accessor raises \<^verbatim>\<open>ValueError\<close> on a tensor that cannot be hashed,
  the header is written with \<^verbatim>\<open>shape=Unknown\<close>, but the visit then raises the
  \<^verbatim>\<open>TypeError\<close> of the membership test and visits no input.
\<close>

theorem shape_raises_counterexample:
  "tf_dprint_dispatch example_a2s
     (PyTensor ((example_attrs 2 ''neg:0'')\<lparr>shape := Inl (TypeError ''no shape'')\<rparr>)
        (OpObj (Op ''Neg'' (InputsList [example_x]) (NodeDef []))))
     example_printer
   = (Some (TypeError ''no shape''), example_printer)
   \<and> tf_dprint_dispatch example_a2s
     (PyTensor ((example_attrs 2 ''neg:0'')\<lparr>shape := Inl (ValueError ''unknown shape'')\<rparr>)
        (OpRaises (AttributeError ''no op'')))
     example_printer
   = (Some (AttributeError ''no op''), example_printer)
   \<and> tf_dprint_dispatch example_a2s
     (PyTensor ((example_attrs 2 ''neg:0'')
                  \<lparr>hash_raises := Some (TypeError ''unhashable''),
                   shape := Inl (ValueError ''unknown shape'')\<rparr>)
        (OpObj (Op ''Neg'' (InputsList [example_x]) (NodeDef []))))
     example_printer
   = (Some (TypeError ''unhashable''),
      example_printer\<lparr>buffer :=
        [''Tensor(Neg):0,'' @ tab @ ''dtype=float32,'' @ tab @ ''shape=Unknown,'' @ tab
           @ dquote @ ''neg:0'' @ dquote @ newline]\<rparr>)"
  by (simp add: eval_simps)

text \<open>
  C8, amended. When the shape accessor of a tensor raises \<^verbatim>\<open>ValueError\<close> or
  \<^verbatim>\<open>AttributeError\<close> and its \<^verbatim>\<open>op\<close> accessor yields an operation or a logic variable,
  the header line is written with \<^verbatim>\<open>shape=Unknown\<close>, and the visit goes on with the
  rest of the tensor case exactly as it does after the header of the same tensor with
  a known shape. In particular, when the operation has at least one input, the tensor
  can be hashed and is not yet in the set of printed subgraphs, the tensor is added to
  the set and the inputs are visited, one level deeper.
\<close>

theorem shape_unknown_continues:
  assumes "shape at = Inl (ValueError m) \<or> shape at = Inl (AttributeError m)"
    and "opa = OpVar v \<or> opa = OpObj oper"
  shows "tf_dprint_dispatch a2s (PyTensor at opa) p
       = after_header a2s at opa
           (p\<lparr>buffer := buffer p @
              [indentation p
                 @ formatter p (PyStr (''Tensor('' @ op_label opa @ ''):''
                     @ format_atom (value_index at)
                     @ '','' @ tab @ ''dtype='' @ dtype_label (dtype at)
                     @ '','' @ tab @ ''shape=Unknown''
                     @ '','' @ tab @ dquote @ format_atom (name at) @ dquote))
                 @ newline]\<rparr>)
     \<and> tf_dprint_dispatch a2s (PyTensor (at\<lparr>shape := Inr ds\<rparr>) opa) p
       = after_header a2s at opa
           (p\<lparr>buffer := buffer p @
              [indentation p
                 @ formatter p (PyStr (''Tensor('' @ op_label opa @ ''):''
                     @ format_atom (value_index at)
                     @ '','' @ tab @ ''dtype='' @ dtype_label (dtype at)
                     @ '','' @ tab @ ''shape='' @ str_dims ds
                     @ '','' @ tab @ dquote @ format_atom (name at) @ dquote))
                 @ newline]\<rparr>)
     \<and> (opa = OpObj (Op ty (InputsList xs) nd) \<and> xs \<noteq> [] \<and> hash_raises at = None
          \<and> ident at \<notin> set (printed_subgraphs p)
        \<longrightarrow> tf_dprint_dispatch a2s (PyTensor at opa) p
            = (let (r, p2) = tf_dprint_inputs a2s xs
                     (p\<lparr>buffer := buffer p @
                        [indentation p
                           @ formatter p (PyStr (''Tensor('' @ ty @ ''):''
                               @ format_atom (value_index at)
                               @ '','' @ tab @ ''dtype='' @ dtype_label (dtype at)
                               @ '','' @ tab @ ''shape=Unknown''
                               @ '','' @ tab @ dquote @ format_atom (name at) @ dquote))
                           @ newline],
                        indentation := indentation p @ ''|  '',
                        printed_subgraphs := printed_subgraphs p @ [ident at]\<rparr>)
               in (r, p2\<lparr>indentation := indentation p\<rparr>)))"
proof (intro conjI impI)
  from assms(1) have s: "shape_str (shape at) = Inr ''Unknown''" by auto
  show "tf_dprint_dispatch a2s (PyTensor at opa) p
       = after_header a2s at opa
           (p\<lparr>buffer := buffer p @
              [indentation p
                 @ formatter p (PyStr (''Tensor('' @ op_label opa @ ''):''
                     @ format_atom (value_index at)
                     @ '','' @ tab @ ''dtype='' @ dtype_label (dtype at)
                     @ '','' @ tab @ ''shape=Unknown''
                     @ '','' @ tab @ dquote @ format_atom (name at) @ dquote))
                 @ newline]\<rparr>)"
    unfolding tensor_case [OF s assms(2)] by (simp add: println_eq prefix_def)
  have k: "shape_str (shape (at\<lparr>shape := Inr ds\<rparr>)) = Inr (str_dims ds)" by simp
  show "tf_dprint_dispatch a2s (PyTensor (at\<lparr>shape := Inr ds\<rparr>) opa) p
       = after_header a2s at opa
           (p\<lparr>buffer := buffer p @
              [indentation p
                 @ formatter p (PyStr (''Tensor('' @ op_label opa @ ''):''
                     @ format_atom (value_index at)
                     @ '','' @ tab @ ''dtype='' @ dtype_label (dtype at)
                     @ '','' @ tab @ ''shape='' @ str_dims ds
                     @ '','' @ tab @ dquote @ format_atom (name at) @ dquote))
                 @ newline]\<rparr>)"
    unfolding tensor_case [OF k assms(2)] after_header_shape
    by (simp add: println_eq prefix_def)
  assume a: "opa = OpObj (Op ty (InputsList xs) nd) \<and> xs \<noteq> [] \<and> hash_raises at = None
          \<and> ident at \<notin> set (printed_subgraphs p)"
  then have o: "opa = OpObj (Op ty (InputsList xs) nd)" and x: "xs \<noteq> []"
    and h: "hash_raises at = None" and n: "ident at \<notin> set (printed_subgraphs p)"
    by simp_all
  show "tf_dprint_dispatch a2s (PyTensor at opa) p
            = (let (r, p2) = tf_dprint_inputs a2s xs
                     (p\<lparr>buffer := buffer p @
                        [indentation p
                           @ formatter p (PyStr (''Tensor('' @ ty @ ''):''
                               @ format_atom (value_index at)
                               @ '','' @ tab @ ''dtype='' @ dtype_label (dtype at)
                               @ '','' @ tab @ ''shape=Unknown''
                               @ '','' @ tab @ dquote @ format_atom (name at) @ dquote))
                           @ newline],
                        indentation := indentation p @ ''|  '',
                        printed_subgraphs := printed_subgraphs p @ [ident at]\<rparr>)
               in (r, p2\<lparr>indentation := indentation p\<rparr>))"
    unfolding o tensor_first_visit [OF s x h n]
    by (simp add: println_eq prefix_def Let_def)
qed

theorem shape_unknown_continues_witness:
  "(shape ((example_attrs 2 ''neg:0'')\<lparr>shape := Inl (ValueError ''unknown shape'')\<rparr>)
      = Inl (ValueError ''unknown shape'')
    \<or> shape ((example_attrs 2 ''neg:0'')\<lparr>shape := Inl (ValueError ''unknown shape'')\<rparr>)
      = Inl (AttributeError ''unknown shape''))
   \<and> [example_x] \<noteq> []
   \<and> hash_raises ((example_attrs 2 ''neg:0'')\<lparr>shape := Inl (ValueError ''unknown shape'')\<rparr>)
      = None
   \<and> ident ((example_attrs 2 ''neg:0'')\<lparr>shape := Inl (ValueError ''unknown shape'')\<rparr>)
      \<notin> set (printed_subgraphs example_printer)
   \<and> tf_dprint_dispatch example_a2s
        (PyTensor ((example_attrs 2 ''neg:0'')\<lparr>shape := Inl (ValueError ''unknown shape'')\<rparr>)
           (OpObj (Op ''Neg'' (InputsList [example_x]) (NodeDef []))))
        example_printer
     = (None, example_printer\<lparr>buffer :=
          [''Tensor(Neg):0,'' @ tab @ ''dtype=float32,'' @ tab @ ''shape=Unknown,'' @ tab
             @ dquote @ ''neg:0'' @ dquote @ newline,
           ''|  Tensor(Placeholder):0,'' @ tab @ ''dtype=float32,'' @ tab @ ''shape=[None, 3],''
             @ tab @ dquote @ ''x:0'' @ dquote @ newline],
          printed_subgraphs := [2]\<rparr>)"
proof -
  let ?at = "(example_attrs 2 ''neg:0'')\<lparr>shape := Inl (ValueError ''unknown shape'')\<rparr>"
  let ?opa = "OpObj (Op ''Neg'' (InputsList [example_x]) (NodeDef [])) :: nat list op_attr"
  have h: "shape ?at = Inl (ValueError ''unknown shape'')
         \<or> shape ?at = Inl (AttributeError ''unknown shape'')"
    by simp
  have o: "?opa = OpVar (Var ''~op'') \<or> ?opa = OpObj (Op ''Neg'' (InputsList [example_x]) (NodeDef []))"
    by simp
  have c: "?opa = OpObj (Op ''Neg'' (InputsList [example_x]) (NodeDef [])) \<and> [example_x] \<noteq> []
         \<and> hash_raises ?at = None \<and> ident ?at \<notin> set (printed_subgraphs example_printer)"
    by (simp add: example_attrs_def example_printer_def init_TFlowPrinter_def)
  from shape_unknown_continues [OF h o, where a2s = example_a2s and p = example_printer
      and ty = "''Neg''" and xs = "[example_x]" and nd = "NodeDef []"] c
  have "tf_dprint_dispatch example_a2s (PyTensor ?at ?opa) example_printer
            = (let (r, p2) = tf_dprint_inputs example_a2s [example_x]
                     (example_printer\<lparr>buffer := buffer example_printer @
                        [indentation example_printer
                           @ formatter example_printer (PyStr (''Tensor('' @ ''Neg'' @ ''):''
                               @ format_atom (value_index ?at)
                               @ '','' @ tab @ ''dtype='' @ dtype_label (dtype ?at)
                               @ '','' @ tab @ ''shape=Unknown''
                               @ '','' @ tab @ dquote @ format_atom (name ?at) @ dquote))
                           @ newline],
                        indentation := indentation example_printer @ ''|  '',
                        printed_subgraphs := printed_subgraphs example_printer @ [ident ?at]\<rparr>)
               in (r, p2\<lparr>indentation := indentation example_printer\<rparr>))"
    by blast
  then have "tf_dprint_dispatch example_a2s (PyTensor ?at ?opa) example_printer
     = (None, example_printer\<lparr>buffer :=
          [''Tensor(Neg):0,'' @ tab @ ''dtype=float32,'' @ tab @ ''shape=Unknown,'' @ tab
             @ dquote @ ''neg:0'' @ dquote @ newline,
           ''|  Tensor(Placeholder):0,'' @ tab @ ''dtype=float32,'' @ tab @ ''shape=[None, 3],''
             @ tab @ dquote @ ''x:0'' @ dquote @ newline],
          printed_subgraphs := [2]\<rparr>)"
    by (simp add: example_x_def eval_simps)
  with h c show ?thesis by simp
qed

subsection \<open>C10: constants and the set of printed subgraphs\<close>

text \<open>
  C10. The visit of a tensor whose operation has no inputs neither reads nor changes
  the set of printed subgraphs: on a printer holding any other set it raises and writes
  the same, and it leaves the set as it found it. For a constant with a node
  definition, the visit is, whatever the set holds: the exception of the shape
  accessor; or the header followed by the exception of \<^verbatim>\<open>eval\<close> or of the missing
  \<^verbatim>\<open>value\<close> attribute; or the header followed by the payload. So the payload is
  rendered at every occurrence, and \<^verbatim>\<open>...\<close> never stands for it. A traversal adds to the
  set only identities of tensors whose operation has at least one input, and a tensor
  without inputs is none of them.
\<close>

theorem constants_not_deduplicated:
  "tf_dprint_dispatch a2s (PyTensor at (OpObj (Op ty (InputsList []) nd)))
     (p\<lparr>printed_subgraphs := ps\<rparr>)
   = (fst (tf_dprint_dispatch a2s (PyTensor at (OpObj (Op ty (InputsList []) nd))) p),
      (snd (tf_dprint_dispatch a2s (PyTensor at (OpObj (Op ty (InputsList []) nd))) p))
         \<lparr>printed_subgraphs := ps\<rparr>)
   \<and> printed_subgraphs
        (snd (tf_dprint_dispatch a2s (PyTensor at (OpObj (Op ty (InputsList []) nd))) p))
     = printed_subgraphs p
   \<and> tf_dprint_dispatch a2s (PyTensor at (OpObj (Op ''Const'' (InputsList []) (NodeDef attr)))) p
     = (case shape_str (shape at) of
          Inl e \<Rightarrow> (Some e, p)
        | Inr shp \<Rightarrow>
            (case (if tf_Tensor at then eval at
                   else (case map_of attr ''value'' of
                           None \<Rightarrow> Inl (KeyError ''value'') | Some v \<Rightarrow> Inr v)) of
               Inl e \<Rightarrow>
                 (Some e, p\<lparr>buffer := buffer p @
                    [indentation p
                       @ formatter p (PyStr (prefix at
                           (OpObj (Op ''Const'' (InputsList []) (NodeDef attr))) shp))
                       @ newline]\<rparr>)
             | Inr v \<Rightarrow>
                 (None, p\<lparr>buffer := buffer p @
                    [indentation p
                       @ formatter p (PyStr (prefix at
                           (OpObj (Op ''Const'' (InputsList []) (NodeDef attr))) shp))
                       @ newline,
                     (indentation p @ ''|  '')
                       @ formatter p (PyStr (a2s v 20 (indentation p @ ''|  ''))) @ newline]\<rparr>)))
   \<and> set (printed_subgraphs (snd (tf_dprint_dispatch a2s obj p)))
     \<subseteq> set (printed_subgraphs p) \<union> idents_with_inputs obj
   \<and> idents_with_inputs (PyTensor at (OpObj (Op ty (InputsList []) nd))) = {}"
proof (intro conjI)
  show "tf_dprint_dispatch a2s (PyTensor at (OpObj (Op ty (InputsList []) nd)))
     (p\<lparr>printed_subgraphs := ps\<rparr>)
   = (fst (tf_dprint_dispatch a2s (PyTensor at (OpObj (Op ty (InputsList []) nd))) p),
      (snd (tf_dprint_dispatch a2s (PyTensor at (OpObj (Op ty (InputsList []) nd))) p))
         \<lparr>printed_subgraphs := ps\<rparr>)"
    by (rule no_inputs_printed)
  show "printed_subgraphs
        (snd (tf_dprint_dispatch a2s (PyTensor at (OpObj (Op ty (InputsList []) nd))) p))
     = printed_subgraphs p"
    by (simp add: indented_alt println_eq
        split: sum.splits node_def.splits option.splits)
  show "tf_dprint_dispatch a2s (PyTensor at (OpObj (Op ''Const'' (InputsList []) (NodeDef attr)))) p
     = (case shape_str (shape at) of
          Inl e \<Rightarrow> (Some e, p)
        | Inr shp \<Rightarrow>
            (case (if tf_Tensor at then eval at
                   else (case map_of attr ''value'' of
                           None \<Rightarrow> Inl (KeyError ''value'') | Some v \<Rightarrow> Inr v)) of
               Inl e \<Rightarrow>
                 (Some e, p\<lparr>buffer := buffer p @
                    [indentation p
                       @ formatter p (PyStr (prefix at
                           (OpObj (Op ''Const'' (InputsList []) (NodeDef attr))) shp))
                       @ newline]\<rparr>)
             | Inr v \<Rightarrow>
                 (None, p\<lparr>buffer := buffer p @
                    [indentation p
                       @ formatter p (PyStr (prefix at
                           (OpObj (Op ''Const'' (InputsList []) (NodeDef attr))) shp))
                       @ newline,
                     (indentation p @ ''|  '')
                       @ formatter p (PyStr (a2s v 20 (indentation p @ ''|  ''))) @ newline]\<rparr>)))"
    by (simp add: indented_alt println_eq split: sum.splits option.splits)
  show "set (printed_subgraphs (snd (tf_dprint_dispatch a2s obj p)))
     \<subseteq> set (printed_subgraphs p) \<union> idents_with_inputs obj"
    by (rule dispatch_fields(4))
  show "idents_with_inputs (PyTensor at (OpObj (Op ty (InputsList []) nd))) = {}"
    by simp
qed

text \<open>The product of a constant with itself: the payload is written under both
  occurrences, and only the product enters the set.\<close>

lemma constant_twice:
  "tf_dprint_dispatch example_a2s example_mul example_printer
   = (None, example_printer\<lparr>buffer :=
        [''Tensor(Mul):0,'' @ tab @ ''dtype=float32,'' @ tab @ ''shape=[None, 3],'' @ tab
           @ dquote @ ''mul:0'' @ dquote @ newline,
         ''|  Tensor(Const):0,'' @ tab @ ''dtype=float32,'' @ tab @ ''shape=[None, 3],'' @ tab
           @ dquote @ ''c:0'' @ dquote @ newline,
         ''|  |  [1 2 3]'' @ newline,
         ''|  Tensor(Const):0,'' @ tab @ ''dtype=float32,'' @ tab @ ''shape=[None, 3],'' @ tab
           @ dquote @ ''c:0'' @ dquote @ newline,
         ''|  |  [1 2 3]'' @ newline],
        printed_subgraphs := [7]\<rparr>)"
  by (simp add: example_mul_def example_const_def eval_simps example_a2s_def full_array_def)

subsection \<open>C1: the key of the set of printed subgraphs\<close>




subsection \<open>C2: a shared tensor\<close>

text \<open>
  C2, as stated, fails on two points. When the tensors of the diamond cannot be hashed,
  the visit of the root raises the \<^verbatim>\<open>TypeError\<close> of the membership test after the
  header of the root: the shared tensor is never expanded and \<^verbatim>\<open>...\<close> is never
  written. And when the shared tensor is in the set before the visit, it is not
  expanded at all: \<^verbatim>\<open>...\<close> is written at its first occurrence too.
\<close>

theorem shared_node_counterexample:
  "tf_dprint_dispatch example_a2s (example_diamond example_tf_attrs) example_printer
   = (Some (TypeError ''Tensor is unhashable''),
      example_printer\<lparr>buffer :=
        [''Tensor(Add):0,'' @ tab @ ''dtype=float32,'' @ tab @ ''shape=[None, 3],'' @ tab
           @ dquote @ ''add:0'' @ dquote @ newline]\<rparr>)
   \<and> tf_dprint_dispatch example_a2s example_add (example_printer\<lparr>printed_subgraphs := [2]\<rparr>)
   = (None, example_printer\<lparr>buffer :=
        [''Tensor(Add):0,'' @ tab @ ''dtype=float32,'' @ tab @ ''shape=[None, 3],'' @ tab
           @ dquote @ ''add:0'' @ dquote @ newline,
         ''|  Tensor(Exp):0,'' @ tab @ ''dtype=float32,'' @ tab @ ''shape=[None, 3],'' @ tab
           @ dquote @ ''exp:0'' @ dquote @ newline,
         ''|  |  Tensor(Neg):0,'' @ tab @ ''dtype=float32,'' @ tab @ ''shape=[None, 3],'' @ tab
           @ dquote @ ''neg:0'' @ dquote @ newline,
         ''|  |  |  ...'' @ newline,
         ''|  Tensor(Log):0,'' @ tab @ ''dtype=float32,'' @ tab @ ''shape=[None, 3],'' @ tab
           @ dquote @ ''log:0'' @ dquote @ newline,
         ''|  |  Tensor(Neg):0,'' @ tab @ ''dtype=float32,'' @ tab @ ''shape=[None, 3],'' @ tab
           @ dquote @ ''neg:0'' @ dquote @ newline,
         ''|  |  |  ...'' @ newline],
        printed_subgraphs := [2, 5, 3, 4]\<rparr>)"
  by (simp add: example_diamond_def example_tf_attrs_def example_add_def example_exp_def
      example_log_def example_neg_def example_x_def eval_simps Let_def)

text \<open>
  C2, amended. Take a graph (a consistent, acyclic tree of objects) that holds a
  tensor whose operation has at least one input, any number of times, and a visit of
  its root that starts with an empty set of printed subgraphs and raises no exception.
  The tensor is added to the set, and so expanded, exactly once over the whole visit.
  Once a tensor is in the set it stays there through every further visit; and a visit
  of it that raises no exception then writes its header and, one level deeper, the
  line \<^verbatim>\<open>...\<close>, and does nothing else: the inputs are not visited again.
\<close>

theorem shared_node_expanded_once:
  assumes "consistent g obj" and "acyclic_graph obj"
    and "printed_subgraphs p = []"
    and "fst (tf_dprint_dispatch a2s obj p) = None"
    and "ident at \<in> idents_with_inputs obj" and "xs \<noteq> []"
  shows "count_list (printed_subgraphs (snd (tf_dprint_dispatch a2s obj p))) (ident at) = 1
     \<and> (ident at \<in> set (printed_subgraphs q)
          \<and> fst (tf_dprint_dispatch a2s (PyTensor at (OpObj (Op ty (InputsList xs) nd))) q) = None
        \<longrightarrow> (\<exists>shp. shape_str (shape at) = Inr shp
             \<and> tf_dprint_dispatch a2s (PyTensor at (OpObj (Op ty (InputsList xs) nd))) q
               = (None, q\<lparr>buffer := buffer q @
                    [indentation q
                       @ formatter q (PyStr (prefix at (OpObj (Op ty (InputsList xs) nd)) shp))
                       @ newline,
                     (indentation q @ ''|  '') @ formatter q (PyStr ''...'') @ newline]\<rparr>)))
     \<and> (ident at \<in> set (printed_subgraphs q)
        \<longrightarrow> ident at \<in> set (printed_subgraphs (snd (tf_dprint_dispatch a2s x q)))
          \<and> ident at \<in> set (printed_subgraphs (snd (tf_dprint_inputs a2s ys q))))"
proof (intro conjI impI)
  let ?p' = "snd (tf_dprint_dispatch a2s obj p)"
  have "closed_under g {} (set (printed_subgraphs p))"
    using assms(3) by (simp add: closed_under_def)
  with traversal_complete(1) [where g = g and obj = obj and p = p and a2s = a2s] assms(1,2,4)
  have "idents_with_inputs obj \<subseteq> set (printed_subgraphs ?p')"
    by (auto simp del: tf_dprint_dispatch.simps)
  with assms(5) have "ident at \<in> set (printed_subgraphs ?p')" by blast
  moreover have "distinct (printed_subgraphs ?p')"
    using dispatch_fields(5) [where p = p and a2s = a2s and obj = obj] assms(3) by simp
  ultimately show "count_list (printed_subgraphs ?p') (ident at) = 1"
    by (simp add: count_list_distinct del: tf_dprint_dispatch.simps)
next
  let ?S = "PyTensor at (OpObj (Op ty (InputsList xs) nd))"
  assume a: "ident at \<in> set (printed_subgraphs q) \<and> fst (tf_dprint_dispatch a2s ?S q) = None"
  then obtain shp where shp: "shape_str (shape at) = Inr shp"
    by (cases "shape_str (shape at)") simp_all
  from a have hashed: "hash_raises at = None"
    using tensor_unhashable [OF shp assms(6), where a2s = a2s and ty = ty and nd = nd and p = q]
    by (cases "hash_raises at") (simp_all del: tf_dprint_dispatch.simps)
  from a have seen: "ident at \<in> set (printed_subgraphs q)" by simp
  from tensor_repeat_visit [OF shp assms(6) hashed seen] shp
  show "\<exists>shp. shape_str (shape at) = Inr shp
             \<and> tf_dprint_dispatch a2s ?S q
               = (None, q\<lparr>buffer := buffer q @
                    [indentation q
                       @ formatter q (PyStr (prefix at (OpObj (Op ty (InputsList xs) nd)) shp))
                       @ newline,
                     (indentation q @ ''|  '') @ formatter q (PyStr ''...'') @ newline]\<rparr>)"
    by blast
next
  assume "ident at \<in> set (printed_subgraphs q)"
  then show "ident at \<in> set (printed_subgraphs (snd (tf_dprint_dispatch a2s x q)))"
    using dispatch_fields(3) [where p = q and a2s = a2s and obj = x] by blast
next
  assume "ident at \<in> set (printed_subgraphs q)"
  then show "ident at \<in> set (printed_subgraphs (snd (tf_dprint_inputs a2s ys q)))"
    using inputs_fields(3) [where p = q and a2s = a2s and xs = ys] by blast
qed

theorem shared_node_expanded_once_witness:
  "consistent example_inputs example_add \<and> acyclic_graph example_add
   \<and> printed_subgraphs example_printer = []
   \<and> fst (tf_dprint_dispatch example_a2s example_add example_printer) = None
   \<and> ident (example_attrs 2 ''neg:0'') \<in> idents_with_inputs example_add
   \<and> [example_x] \<noteq> []
   \<and> count_list
        (printed_subgraphs (snd (tf_dprint_dispatch example_a2s example_add example_printer)))
        (ident (example_attrs 2 ''neg:0'')) = 1
   \<and> tf_dprint_dispatch example_a2s example_add example_printer
     = (None, example_printer\<lparr>buffer :=
        [''Tensor(Add):0,'' @ tab @ ''dtype=float32,'' @ tab @ ''shape=[None, 3],'' @ tab
           @ dquote @ ''add:0'' @ dquote @ newline,
         ''|  Tensor(Exp):0,'' @ tab @ ''dtype=float32,'' @ tab @ ''shape=[None, 3],'' @ tab
           @ dquote @ ''exp:0'' @ dquote @ newline,
         ''|  |  Tensor(Neg):0,'' @ tab @ ''dtype=float32,'' @ tab @ ''shape=[None, 3],'' @ tab
           @ dquote @ ''neg:0'' @ dquote @ newline,
         ''|  |  |  Tensor(Placeholder):0,'' @ tab @ ''dtype=float32,'' @ tab
           @ ''shape=[None, 3],'' @ tab @ dquote @ ''x:0'' @ dquote @ newline,
         ''|  Tensor(Log):0,'' @ tab @ ''dtype=float32,'' @ tab @ ''shape=[None, 3],'' @ tab
           @ dquote @ ''log:0'' @ dquote @ newline,
         ''|  |  Tensor(Neg):0,'' @ tab @ ''dtype=float32,'' @ tab @ ''shape=[None, 3],'' @ tab
           @ dquote @ ''neg:0'' @ dquote @ newline,
         ''|  |  |  ...'' @ newline],
        printed_subgraphs := [5, 3, 2, 4]\<rparr>)"
proof -
  note defs = example_add_def example_exp_def example_log_def example_neg_def example_x_def
  have run: "tf_dprint_dispatch example_a2s example_add example_printer
     = (None, example_printer\<lparr>buffer :=
        [''Tensor(Add):0,'' @ tab @ ''dtype=float32,'' @ tab @ ''shape=[None, 3],'' @ tab
           @ dquote @ ''add:0'' @ dquote @ newline,
         ''|  Tensor(Exp):0,'' @ tab @ ''dtype=float32,'' @ tab @ ''shape=[None, 3],'' @ tab
           @ dquote @ ''exp:0'' @ dquote @ newline,
         ''|  |  Tensor(Neg):0,'' @ tab @ ''dtype=float32,'' @ tab @ ''shape=[None, 3],'' @ tab
           @ dquote @ ''neg:0'' @ dquote @ newline,
         ''|  |  |  Tensor(Placeholder):0,'' @ tab @ ''dtype=float32,'' @ tab
           @ ''shape=[None, 3],'' @ tab @ dquote @ ''x:0'' @ dquote @ newline,
         ''|  Tensor(Log):0,'' @ tab @ ''dtype=float32,'' @ tab @ ''shape=[None, 3],'' @ tab
           @ dquote @ ''log:0'' @ dquote @ newline,
         ''|  |  Tensor(Neg):0,'' @ tab @ ''dtype=float32,'' @ tab @ ''shape=[None, 3],'' @ tab
           @ dquote @ ''neg:0'' @ dquote @ newline,
         ''|  |  |  ...'' @ newline],
        printed_subgraphs := [5, 3, 2, 4]\<rparr>)"
    by (simp add: defs eval_simps)
  have a1: "consistent example_inputs example_add"
    by (simp add: defs example_inputs_def example_attrs_def)
  have a2: "acyclic_graph example_add" by (simp add: defs example_attrs_def)
  have a3: "printed_subgraphs example_printer = []"
    by (simp add: example_printer_def init_TFlowPrinter_def)
  have a4: "fst (tf_dprint_dispatch example_a2s example_add example_printer) = None"
    unfolding run by simp
  have a5: "ident (example_attrs 2 ''neg:0'') \<in> idents_with_inputs example_add"
    by (simp add: defs example_attrs_def)
  have a6: "[example_x] \<noteq> []" by simp
  note t = shared_node_expanded_once [OF a1 a2 a3 a4 a5 a6, where ty = "''Neg''"
      and nd = "NodeDef []" and q = example_printer and x = example_x and ys = "[]"]
  from a1 a2 a3 a4 a5 a6 t [THEN conjunct1] run show ?thesis by (intro conjI)
qed

end
